theory Spec2Isabelle
  imports Complex_Main "HOL-Library.Sublist"
begin

section \<open>JavaScript values used by the location-update core\<close>

text \<open>
  A JavaScript number is an IEEE double: a finite value, one of the two infinities, or
  NaN. Finite values are modelled by the real they denote; rounding of arithmetic
  results is not modelled. Comparisons of a double with a constant are exact, so the
  range checks of the validator are modelled without loss.
\<close>

datatype jsnum = JNaN | JFin real | JPosInf | JNegInf

text \<open>
  The values a field of an inbound message can hold. An array or an object is given by its
  string form \<open>String(v)\<close>, which is all \<open>parseFloat\<close> reads of it: \<open>[13.6]\<close> is
  \<open>JObject ''13.6''\<close>.
\<close>

datatype jsval = JUndefined | JNull | JBool bool | JNum jsnum | JStr string | JObject string

text \<open>\<open>isNaN(x)\<close> for an \<open>x\<close> that already is a number.\<close>

definition isNaN :: "jsnum \<Rightarrow> bool" where
  "isNaN x = (x = JNaN)"

text \<open>\<open>x >= c\<close> and \<open>x <= c\<close> for a number \<open>x\<close> and a finite constant \<open>c\<close>;
  every comparison with NaN is false.\<close>

fun js_ge :: "jsnum \<Rightarrow> real \<Rightarrow> bool" where
  "js_ge JNaN c = False"
| "js_ge (JFin r) c = (c \<le> r)"
| "js_ge JPosInf c = True"
| "js_ge JNegInf c = False"

fun js_le :: "jsnum \<Rightarrow> real \<Rightarrow> bool" where
  "js_le JNaN c = False"
| "js_le (JFin r) c = (r \<le> c)"
| "js_le JPosInf c = False"
| "js_le JNegInf c = True"

subsection \<open>parseFloat\<close>

text \<open>
  \<open>parseFloat(string)\<close> as the language defines it: leading white space is removed, and
  the result is the value of the longest prefix of what remains that is a
  \<open>StrDecimalLiteral\<close>, or NaN when no prefix is one. A \<open>StrDecimalLiteral\<close> is an
  optional sign followed by \<open>Infinity\<close> or by decimal digits with an optional fraction
  and an optional exponent; at least one digit is required before or after the point.
  Only the white space characters of ASCII are modelled, and the value of a literal is
  the real it denotes.
\<close>

definition is_digit :: "char \<Rightarrow> bool" where
  "is_digit ch = (ch \<in> set ''0123456789'')"

definition digit_value :: "char \<Rightarrow> nat" where
  "digit_value ch =
     (if ch = CHR ''1'' then 1 else if ch = CHR ''2'' then 2 else if ch = CHR ''3'' then 3
      else if ch = CHR ''4'' then 4 else if ch = CHR ''5'' then 5 else if ch = CHR ''6'' then 6
      else if ch = CHR ''7'' then 7 else if ch = CHR ''8'' then 8 else if ch = CHR ''9'' then 9
      else 0)"

definition digits_value :: "string \<Rightarrow> nat" where
  "digits_value ds = foldl (\<lambda>acc ch. 10 * acc + digit_value ch) 0 ds"

definition is_white :: "char \<Rightarrow> bool" where
  "is_white ch = (ch \<in> set [CHR '' '', CHR 0x09, CHR 0x0A, CHR 0x0B, CHR 0x0C, CHR 0x0D])"

definition strip_sign :: "string \<Rightarrow> bool \<times> string" where
  "strip_sign str =
     (case str of
        ch # rest \<Rightarrow> if ch = CHR ''-'' then (True, rest)
                    else if ch = CHR ''+'' then (False, rest) else (False, str)
      | [] \<Rightarrow> (False, str))"

text \<open>\<open>SignedInteger\<close>: an optional sign and at least one digit.\<close>

definition signed_integer :: "string \<Rightarrow> int option" where
  "signed_integer str =
     (case strip_sign str of
        (neg, ds) \<Rightarrow>
          if ds \<noteq> [] \<and> list_all is_digit ds
          then Some (if neg then - int (digits_value ds) else int (digits_value ds))
          else None)"

text \<open>An optional \<open>ExponentPart\<close>: nothing, or \<open>e\<close> or \<open>E\<close> and a signed integer.\<close>

definition exponent_part :: "string \<Rightarrow> int option" where
  "exponent_part str =
     (case str of
        [] \<Rightarrow> Some 0
      | ch # rest \<Rightarrow> if ch = CHR ''e'' \<or> ch = CHR ''E'' then signed_integer rest else None)"

text \<open>Digits, digits with a point and optional digits, or a point and digits.\<close>

definition mantissa :: "string \<Rightarrow> real option" where
  "mantissa str =
     (let ip = takeWhile is_digit str; r = dropWhile is_digit str
      in case r of
           [] \<Rightarrow> if ip \<noteq> [] then Some (real (digits_value ip)) else None
         | ch # fp \<Rightarrow>
             if ch = CHR ''.'' \<and> list_all is_digit fp \<and> (ip \<noteq> [] \<or> fp \<noteq> [])
             then Some (real (digits_value ip) + real (digits_value fp) / 10 ^ length fp)
             else None)"

definition scale10 :: "real \<Rightarrow> int \<Rightarrow> real" where
  "scale10 m e = (if 0 \<le> e then m * 10 ^ nat e else m / 10 ^ nat (- e))"

definition unsigned_literal :: "string \<Rightarrow> jsnum option" where
  "unsigned_literal str =
     (if str = ''Infinity'' then Some JPosInf
      else (let m = takeWhile (\<lambda>ch. ch \<noteq> CHR ''e'' \<and> ch \<noteq> CHR ''E'') str;
                ex = dropWhile (\<lambda>ch. ch \<noteq> CHR ''e'' \<and> ch \<noteq> CHR ''E'') str
            in case (mantissa m, exponent_part ex) of
                 (Some mv, Some ev) \<Rightarrow> Some (JFin (scale10 mv ev))
               | _ \<Rightarrow> None))"

definition negate :: "jsnum \<Rightarrow> jsnum" where
  "negate n =
     (case n of JNaN \<Rightarrow> JNaN | JFin r \<Rightarrow> JFin (- r) | JPosInf \<Rightarrow> JNegInf | JNegInf \<Rightarrow> JPosInf)"

text \<open>The value of a string that is a \<open>StrDecimalLiteral\<close> as a whole, \<open>None\<close> when it
  is not one.\<close>

definition StrDecimalLiteral :: "string \<Rightarrow> jsnum option" where
  "StrDecimalLiteral str =
     (case strip_sign str of
        (neg, u) \<Rightarrow> (case unsigned_literal u of
                       None \<Rightarrow> None
                     | Some n \<Rightarrow> Some (if neg then negate n else n)))"

definition parseFloat_string :: "string \<Rightarrow> jsnum" where
  "parseFloat_string inputString =
     (let trimmedString = dropWhile is_white inputString;
          literals = List.map_filter StrDecimalLiteral (prefixes trimmedString)
      in if literals = [] then JNaN else last literals)"

text \<open>
  \<open>parseFloat(v)\<close> converts its argument to a string first. The string form of a number
  reads back as that number, so a number is returned as it is.
\<close>

fun parseFloat :: "jsval \<Rightarrow> jsnum" where
  "parseFloat (JNum n) = n"
| "parseFloat (JStr str) = parseFloat_string str"
| "parseFloat (JObject str) = parseFloat_string str"
| "parseFloat JUndefined = parseFloat_string ''undefined''"
| "parseFloat JNull = parseFloat_string ''null''"
| "parseFloat (JBool b) = parseFloat_string (if b then ''true'' else ''false'')"

text \<open>Truthiness, as \<open>!v\<close> and \<open>v || d\<close> read it.\<close>

fun truthy :: "jsval \<Rightarrow> bool" where
  "truthy JUndefined = False"
| "truthy JNull = False"
| "truthy (JBool b) = b"
| "truthy (JNum n) = (n \<noteq> JNaN \<and> n \<noteq> JFin 0)"
| "truthy (JStr str) = (str \<noteq> [])"
| "truthy (JObject str) = True"


subsection \<open>Math builtins\<close>

text \<open>
  \<open>Math.atan2(y, x)\<close> on finite arguments: the angle of the point \<open>(x, y)\<close> in
  \<open>(-pi, pi]\<close>, and \<open>0\<close> at the origin. The reals have no negative zero, so the
  results \<open>-0\<close>, and \<open>-pi\<close> at \<open>(x, -0)\<close> with \<open>x < 0\<close>, do not arise.
\<close>

definition atan2 :: "real \<Rightarrow> real \<Rightarrow> real" where
  "atan2 y x =
     (if 0 < x then arctan (y / x)
      else if x < 0 then (if 0 \<le> y then arctan (y / x) + pi else arctan (y / x) - pi)
      else if 0 < y then pi / 2
      else if y < 0 then - (pi / 2)
      else 0)"

subsection \<open>Exceptions, try/catch and forEach\<close>

text \<open>
  A statement that can throw is a function from the state to a result and the state it
  leaves: \<open>Inl e\<close> when it throws \<open>e\<close>, \<open>Inr v\<close> when it completes with \<open>v\<close>. What
  was written to the state before a throw stays written.
\<close>

datatype js_error = Thrown string

type_synonym ('st, 'a) comp = "'st \<Rightarrow> (js_error + 'a) \<times> 'st"

text \<open>Sequencing: a throw of the first statement skips the second.\<close>

definition andThen :: "('st, 'a) comp \<Rightarrow> ('a \<Rightarrow> ('st, 'b) comp) \<Rightarrow> ('st, 'b) comp" where
  "andThen m f = (\<lambda>st. case m st of
                          (Inl e, st') \<Rightarrow> (Inl e, st')
                        | (Inr v, st') \<Rightarrow> f v st')"

text \<open>\<open>try { body } catch (error) { handler }\<close>.\<close>

definition tryCatch :: "('st, 'a) comp \<Rightarrow> (js_error \<Rightarrow> ('st, 'a) comp) \<Rightarrow> ('st, 'a) comp" where
  "tryCatch body handler = (\<lambda>st. case body st of
                                    (Inl e, st') \<Rightarrow> handler e st'
                                  | (Inr v, st') \<Rightarrow> (Inr v, st'))"

text \<open>
  \<open>array.forEach(f)\<close>: \<open>f\<close> is applied to the elements in index order; a throw of
  \<open>f\<close> ends the iteration and leaves \<open>forEach\<close> as a throw.
\<close>

fun forEach :: "'c list \<Rightarrow> ('c \<Rightarrow> ('st, unit) comp) \<Rightarrow> ('st, unit) comp" where
  "forEach [] f st = (Inr (), st)"
| "forEach (x # xs) f st =
     (case f x st of
        (Inl e, st') \<Rightarrow> (Inl e, st')
      | (Inr u, st') \<Rightarrow> forEach xs f st')"

text \<open>
  A subscriber callback receives the notified value. It runs on the state \<open>'w\<close> of the
  subscribers' side (everything outside the notifying object) and returns or throws.
\<close>

type_synonym ('w, 'a) callback = "'a \<Rightarrow> ('w, unit) comp"

text \<open>What the code writes to the console.\<close>

datatype console_entry =
  ConsoleLog string | ConsoleWarn string | ConsoleError string


section \<open>UpdateValidator: the pure checks of WebSocketGPSService\<close>

subsection \<open>Points\<close>

text \<open>
  The point object of an inbound message, \<open>{lat, lon, t}\<close>, before parsing. A field
  that is missing reads as \<open>undefined\<close>, so a truthy value that is not an object with
  these fields is a point whose three fields are \<open>undefined\<close>.
\<close>

record raw_point =
  raw_lat :: jsval
  raw_lon :: jsval
  raw_t :: jsval

text \<open>
  The timestamp of an accepted point, as \<open>new Date(timestamp)\<close> reads it: a falsy
  value (absent), a value that does not parse to a date (the date's time is NaN), or a
  time in milliseconds since the epoch.
\<close>

datatype timestamp = NoTimestamp | BadTimestamp | Millis int

text \<open>A point held by the reconciler: finite coordinates and a timestamp.\<close>

record gps =
  lat :: real
  lon :: real
  timestamp :: timestamp

subsection \<open>isValidGPSData\<close>

text \<open>The expression \<open>typeof v === 'number' ? v : parseFloat(v)\<close>.\<close>

definition coordinate :: "jsval \<Rightarrow> jsnum" where
  "coordinate v = (case v of JNum n \<Rightarrow> n | _ \<Rightarrow> parseFloat v)"

text \<open>\<open>None\<close> is an absent (falsy) \<open>data\<close>.\<close>

definition isValidGPSData :: "raw_point option \<Rightarrow> bool" where
  "isValidGPSData data =
     (case data of
        None \<Rightarrow> False
      | Some d \<Rightarrow>
          (let la = coordinate (raw_lat d);
               lo = coordinate (raw_lon d)
           in \<not> isNaN la \<and> \<not> isNaN lo \<and>
              js_ge la (- 90) \<and> js_le la 90 \<and>
              js_ge lo (- 180) \<and> js_le lo 180))"

text \<open>
  What a coordinate reads as, stated apart from the code: a number reads as itself; a
  string, and an array or object through its string form, reads as the value of the
  longest prefix after leading white space that is a decimal literal, and as NaN when
  there is none; \<open>undefined\<close>, \<open>null\<close> and booleans read as NaN.
\<close>

fun numeric_reading :: "jsval \<Rightarrow> jsnum" where
  "numeric_reading (JNum n) = n"
| "numeric_reading (JStr str) = parseFloat_string str"
| "numeric_reading (JObject str) = parseFloat_string str"
| "numeric_reading JUndefined = JNaN"
| "numeric_reading JNull = JNaN"
| "numeric_reading (JBool b) = JNaN"

text \<open>The characters a decimal literal can begin with.\<close>

definition numeral_start :: "char \<Rightarrow> bool" where
  "numeral_start ch = (ch \<in> set ''0123456789+-.I'')"

subsection \<open>hasGPSChanged\<close>

text \<open>
  The class declares \<open>hasGPSChanged\<close> twice. A later method of a class body replaces
  an earlier one of the same name, so the second declaration, with tolerance
  \<open>0.000005\<close>, is the method of the service; the first, with threshold \<open>0.000001\<close>,
  is never called.
\<close>

definition hasGPSChanged_shadowed :: "gps option \<Rightarrow> gps option \<Rightarrow> bool" where
  "hasGPSChanged_shadowed newGPS oldGPS =
     (case (oldGPS, newGPS) of
        (Some old, Some new) \<Rightarrow>
          (let latDiff = \<bar>lat new - lat old\<bar>;
               lonDiff = \<bar>lon new - lon old\<bar>;
               threshold = 1 / 1000000
           in latDiff > threshold \<or> lonDiff > threshold)
      | _ \<Rightarrow> True)"

definition hasGPSChanged :: "gps option \<Rightarrow> gps option \<Rightarrow> bool" where
  "hasGPSChanged current previous =
     (case (current, previous) of
        (Some cur, Some prev) \<Rightarrow>
          (let tolerance = 5 / 1000000;
               latDiff = \<bar>lat cur - lat prev\<bar>;
               lonDiff = \<bar>lon cur - lon prev\<bar>
           in latDiff > tolerance \<or> lonDiff > tolerance)
      | _ \<Rightarrow> True)"

subsection \<open>isGPSDataStale\<close>

text \<open>
  Declared twice as well, with the same body up to how the clock is read. \<open>now\<close> is
  the clock in milliseconds. A timestamp that does not parse gives the age NaN, and
  \<open>NaN > maxAgeMs\<close> is false.
\<close>

definition isGPSDataStale :: "int \<Rightarrow> timestamp \<Rightarrow> int \<Rightarrow> bool" where
  "isGPSDataStale now ts maxAgeMs =
     (case ts of
        NoTimestamp \<Rightarrow> True
      | BadTimestamp \<Rightarrow> False
      | Millis t \<Rightarrow> now - t > maxAgeMs)"

definition defaultMaxAgeMs :: int where
  "defaultMaxAgeMs = 60000"




section \<open>ChannelClient: WebSocketGPSService\<close>

subsection \<open>Messages, cached points and state\<close>

text \<open>
  The payload of an inbound message when it is not \<open>null\<close> or \<open>undefined\<close>: its
  fields \<open>c\<close>, \<open>p\<close> and \<open>s\<close>. A point that is missing or falsy is \<open>None\<close>. A
  handler receives a \<open>raw_message option\<close>, \<open>None\<close> being a payload that is \<open>null\<close>
  or \<open>undefined\<close>.
\<close>

record raw_message =
  msg_c :: "raw_point option"
  msg_p :: "raw_point option"
  msg_s :: "string option"

text \<open>
  A point as the service stores it: the coordinates as \<open>parseFloat\<close> returned them, and
  the timestamp, which is the \<open>t\<close> of the message when that is truthy and otherwise the
  ISO form of a clock reading.
\<close>

datatype stamp = WireStamp jsval | IsoDate int

record parsed_gps =
  p_lat :: jsnum
  p_lon :: jsnum
  p_timestamp :: stamp

text \<open>The object passed to the update subscribers.\<close>

record location_update =
  lu_current :: "parsed_gps option"
  lu_previous :: "parsed_gps option"
  lu_status :: string
  lu_source :: string
  lu_timestamp :: int

text \<open>The options of the connection, after the defaults are merged in.\<close>

record config =
  serverUrl :: string
  reconnection :: bool
  reconnectionAttempts :: nat
  reconnectionDelay :: nat
  timeout :: nat

text \<open>
  The calls made on the socket library. A socket object is named by a number; \<open>io\<close>
  returns a new one each time.
\<close>

datatype transport_call =
  IoConnect nat string
| SocketOn nat string
| SocketDisconnect nat
| SocketEmit nat string
| SetTimeoutConnect nat

text \<open>
  The fields of the service; those that \<open>TramMovement\<close> also has carry the prefix
  \<open>ws_\<close>. \<open>socketConnected\<close> is \<open>this.socket.connected\<close>, the library's own
  record of whether the held socket is connected. \<open>transport\<close> is the sequence of calls
  made on the socket library, \<open>nextSocketId\<close> the number of the next socket object,
  \<open>ws_console\<close> the console output and \<open>ws_world\<close> the state the subscribers'
  callbacks run on.
\<close>

record 'w service =
  config :: config
  socket :: "nat option"
  socketConnected :: bool
  isConnected :: bool
  connectionAttempts :: nat
  maxConnectionAttempts :: nat
  ws_currentGPS :: "parsed_gps option"
  ws_previousGPS :: "parsed_gps option"
  onGPSUpdateCallbacks :: "('w, location_update) callback list"
  onConnectionChangeCallbacks :: "('w, bool) callback list"
  onErrorCallbacks :: "('w, string) callback list"
  transport :: "transport_call list"
  nextSocketId :: nat
  ws_console :: "console_entry list"
  ws_world :: 'w

definition ws_log :: "console_entry \<Rightarrow> 'w service \<Rightarrow> 'w service" where
  "ws_log e st = st\<lparr>ws_console := ws_console st @ [e]\<rparr>"

definition ws_transport :: "transport_call \<Rightarrow> 'w service \<Rightarrow> 'w service" where
  "ws_transport c st = st\<lparr>transport := transport st @ [c]\<rparr>"

text \<open>A callback of the service, run on the subscribers' state.\<close>

definition ws_call :: "('w, 'a) callback \<Rightarrow> 'a \<Rightarrow> ('w service, unit) comp" where
  "ws_call cb v st =
     (case cb v (ws_world st) of (r, w') \<Rightarrow> (r, st\<lparr>ws_world := w'\<rparr>))"

subsection \<open>Notification\<close>

definition notifyGPSUpdate :: "location_update \<Rightarrow> ('w service, unit) comp" where
  "notifyGPSUpdate data st =
     forEach (onGPSUpdateCallbacks st)
       (\<lambda>callback. tryCatch (ws_call callback data)
          (\<lambda>error s. (Inr (), ws_log (ConsoleError ''Error in GPS update callback:'') s)))
       st"

definition notifyConnectionChange :: "bool \<Rightarrow> ('w service, unit) comp" where
  "notifyConnectionChange conn st =
     forEach (onConnectionChangeCallbacks st)
       (\<lambda>callback. tryCatch (ws_call callback conn)
          (\<lambda>error s. (Inr (), ws_log (ConsoleError ''Error in connection change callback:'') s)))
       st"

definition notifyError :: "string \<Rightarrow> ('w service, unit) comp" where
  "notifyError err st =
     forEach (onErrorCallbacks st)
       (\<lambda>callback. tryCatch (ws_call callback err)
          (\<lambda>error s. (Inr (), ws_log (ConsoleError ''Error in error callback:'') s)))
       st"

text \<open>
  What running every callback of a list on a value amounts to, each on the state left by
  the one before it and whatever the one before it did: the state left at the end, and
  the outcomes in order.
\<close>

definition run_all :: "('w, 'a) callback list \<Rightarrow> 'a \<Rightarrow> 'w \<Rightarrow> 'w" where
  "run_all cbs v w = fold (\<lambda>cb w'. snd (cb v w')) cbs w"

fun outcomes :: "('w, 'a) callback list \<Rightarrow> 'a \<Rightarrow> 'w \<Rightarrow> (js_error + unit) list" where
  "outcomes [] v w = []"
| "outcomes (cb # cbs) v w = fst (cb v w) # outcomes cbs v (snd (cb v w))"

text \<open>One console error for each callback that threw.\<close>

definition caught :: "string \<Rightarrow> (js_error + unit) list \<Rightarrow> console_entry list" where
  "caught label rs = map (\<lambda>r. ConsoleError label) (filter isl rs)"

subsection \<open>Subscription\<close>

definition onGPSUpdate :: "('w, location_update) callback \<Rightarrow> 'w service \<Rightarrow> 'w service" where
  "onGPSUpdate callback st =
     st\<lparr>onGPSUpdateCallbacks := onGPSUpdateCallbacks st @ [callback]\<rparr>"

definition onConnectionChange :: "('w, bool) callback \<Rightarrow> 'w service \<Rightarrow> 'w service" where
  "onConnectionChange callback st =
     st\<lparr>onConnectionChangeCallbacks := onConnectionChangeCallbacks st @ [callback]\<rparr>"

definition onError :: "('w, string) callback \<Rightarrow> 'w service \<Rightarrow> 'w service" where
  "onError callback st = st\<lparr>onErrorCallbacks := onErrorCallbacks st @ [callback]\<rparr>"

subsection \<open>Connection\<close>

definition requestGPSData :: "'w service \<Rightarrow> 'w service" where
  "requestGPSData st =
     (case socket st of
        Some k \<Rightarrow>
          (if isConnected st then ws_transport (SocketEmit k ''request-gps-data'') st
           else ws_log (ConsoleWarn ''Cannot request GPS data - not connected'') st)
      | None \<Rightarrow> ws_log (ConsoleWarn ''Cannot request GPS data - not connected'') st)"

text \<open>The handler of the socket's \<open>connect\<close> event.\<close>

definition on_connect :: "('w service, unit) comp" where
  "on_connect st =
     (case socket st of
        None \<Rightarrow> (Inl (Thrown ''TypeError''), st)
      | Some k \<Rightarrow>
          (let st1 = ws_log (ConsoleLog ''WebSocket connected:'') st;
               st2 = st1\<lparr>isConnected := True\<rparr>;
               st3 = st2\<lparr>connectionAttempts := 0\<rparr>
           in andThen (notifyConnectionChange True)
                (\<lambda>u s. (Inr (), requestGPSData s)) st3))"

text \<open>The handler of \<open>disconnect\<close>; a disconnect by the server schedules \<open>connect\<close>
  after one second.\<close>

definition on_disconnect :: "string \<Rightarrow> ('w service, unit) comp" where
  "on_disconnect reason st =
     (let st1 = ws_log (ConsoleLog ''WebSocket disconnected:'') st;
          st2 = st1\<lparr>isConnected := False\<rparr>
      in andThen (notifyConnectionChange False)
           (\<lambda>u s. (Inr (), if reason = ''io server disconnect''
                             then ws_transport (SetTimeoutConnect 1000) s else s)) st2)"

text \<open>The handler of \<open>connect_error\<close>.\<close>

definition on_connect_error :: "('w service, unit) comp" where
  "on_connect_error st =
     (let st1 = ws_log (ConsoleWarn ''WebSocket connection error:'') st;
          st2 = st1\<lparr>connectionAttempts := Suc (connectionAttempts st1)\<rparr>
      in if connectionAttempts st2 \<ge> maxConnectionAttempts st2
         then notifyError ''Connection failed, using simulation data''
                (ws_log (ConsoleWarn ''Max connection attempts reached, falling back to simulation'') st2)
         else (Inr (), st2))"

text \<open>
  The socket library. When the held socket connects, the library marks it connected and
  emits \<open>connect\<close>; when the connection is lost, it marks it not connected and emits
  \<open>disconnect\<close> with the reason. \<open>socket.disconnect()\<close> on a connected socket does the
  same at once, before it returns, with the reason \<open>io client disconnect\<close>; on a socket
  that is not connected it emits nothing.
\<close>

definition socket_connects :: "('w service, unit) comp" where
  "socket_connects st = on_connect (st\<lparr>socketConnected := True\<rparr>)"

definition socket_drops :: "string \<Rightarrow> ('w service, unit) comp" where
  "socket_drops reason st = on_disconnect reason (st\<lparr>socketConnected := False\<rparr>)"

definition socket_disconnect :: "nat \<Rightarrow> ('w service, unit) comp" where
  "socket_disconnect k st =
     (let st1 = ws_transport (SocketDisconnect k) st
      in if socketConnected st1
         then on_disconnect ''io client disconnect'' (st1\<lparr>socketConnected := False\<rparr>)
         else (Inr (), st1))"

definition event_names :: "string list" where
  "event_names = [''connect'', ''disconnect'', ''connect_error'', ''welcome'', ''gps-data'',
                  ''gps-data-update'', ''gps-error'', ''pong'']"

text \<open>\<open>setupEventHandlers\<close> registers a handler on \<open>this.socket\<close> for each event; the
  handlers themselves are the functions \<open>on_\<close>\dots of this section.\<close>

definition setupEventHandlers :: "('w service, unit) comp" where
  "setupEventHandlers st =
     (case socket st of
        None \<Rightarrow> (Inl (Thrown ''TypeError''), st)
      | Some k \<Rightarrow> (Inr (), st\<lparr>transport := transport st @ map (SocketOn k) event_names\<rparr>))"

text \<open>\<open>connect()\<close>. The socket that \<open>io\<close> returns is not connected yet.\<close>

definition connect :: "('w service, unit) comp" where
  "connect st =
     andThen (case socket st of
                Some old \<Rightarrow> socket_disconnect old
              | None \<Rightarrow> (\<lambda>s. (Inr (), s)))
       (\<lambda>u st1.
          (let st2 = ws_log (ConsoleLog ''Attempting WebSocket connection to:'') st1;
               k = nextSocketId st2;
               st3 = (ws_transport (IoConnect k (serverUrl (config st2))) st2)
                       \<lparr>nextSocketId := Suc k, socket := Some k, socketConnected := False\<rparr>
           in setupEventHandlers st3))
       st"

definition disconnect :: "('w service, unit) comp" where
  "disconnect st =
     andThen (case socket st of
                Some k \<Rightarrow> andThen (socket_disconnect k)
                            (\<lambda>u s. (Inr (), s\<lparr>socket := None, socketConnected := False\<rparr>))
              | None \<Rightarrow> (\<lambda>s. (Inr (), s)))
       (\<lambda>u s. (Inr (), s\<lparr>isConnected := False\<rparr>))
       st"

definition initializeSimulationData :: "int \<Rightarrow> 'w service \<Rightarrow> 'w service" where
  "initializeSimulationData now st =
     st\<lparr>ws_currentGPS := Some \<lparr>p_lat = JFin (13612441 / 1000000),
                                p_lon = JFin (100836478 / 1000000),
                                p_timestamp = IsoDate now\<rparr>,
        ws_previousGPS := Some \<lparr>p_lat = JFin (13612412 / 1000000),
                                 p_lon = JFin (100836585 / 1000000),
                                 p_timestamp = IsoDate (now - 5000)\<rparr>\<rparr>"

text \<open>The constructor, for merged options, at clock \<open>now\<close>, with the subscribers' state.\<close>

definition WebSocketGPSService :: "config \<Rightarrow> int \<Rightarrow> 'w \<Rightarrow> (js_error + unit) \<times> 'w service" where
  "WebSocketGPSService cfg now w =
     (let st0 = \<lparr>config = cfg, socket = None, socketConnected = False, isConnected = False,
                 connectionAttempts = 0,
                 maxConnectionAttempts = 5, ws_currentGPS = None, ws_previousGPS = None,
                 onGPSUpdateCallbacks = [], onConnectionChangeCallbacks = [],
                 onErrorCallbacks = [], transport = [], nextSocketId = 0,
                 ws_console = [], ws_world = w\<rparr>;
          st1 = initializeSimulationData now st0;
          st2 = ws_log (ConsoleLog ''WebSocket GPS Service: Initializing...'') st1;
          st3 = ws_log (ConsoleLog ''Server URL:'') st2
      in connect st3)"

subsection \<open>Inbound messages\<close>

text \<open>The object literal built from a point of the message; \<open>fallback\<close> is the clock
  reading used when the point has no truthy \<open>t\<close>.\<close>

definition parsePoint :: "int \<Rightarrow> raw_point \<Rightarrow> parsed_gps" where
  "parsePoint fallback rp =
     \<lparr>p_lat = parseFloat (raw_lat rp),
      p_lon = parseFloat (raw_lon rp),
      p_timestamp = (if truthy (raw_t rp) then WireStamp (raw_t rp) else IsoDate fallback)\<rparr>"

text \<open>
  \<open>processGPSData(gpsData, source)\<close> of the service, at clock \<open>now\<close>. Reading
  \<open>gpsData.c\<close> throws when the payload is \<open>null\<close> or \<open>undefined\<close>, and reading a field
  of \<open>gpsData.c\<close> when \<open>c\<close> is missing would throw.
\<close>

definition ws_processGPSData ::
  "int \<Rightarrow> raw_message option \<Rightarrow> string \<Rightarrow> ('w service, unit) comp" where
  "ws_processGPSData now payload src st =
     (case payload of
        None \<Rightarrow> (Inl (Thrown ''TypeError''), st)
      | Some gpsData \<Rightarrow>
          if \<not> isValidGPSData (msg_c gpsData) \<or> \<not> isValidGPSData (msg_p gpsData)
          then (Inr (), ws_log (ConsoleWarn ''Invalid GPS data received:'') st)
          else
            (let st1 = st\<lparr>ws_previousGPS := ws_currentGPS st\<rparr>
             in case msg_c gpsData of
                  None \<Rightarrow> (Inl (Thrown ''TypeError''), st1)
                | Some c \<Rightarrow>
                    (let st2 = st1\<lparr>ws_currentGPS := Some (parsePoint now c)\<rparr>;
                         st3 = (case msg_p gpsData of
                                  Some p \<Rightarrow> st2\<lparr>ws_previousGPS := Some (parsePoint (now - 5000) p)\<rparr>
                                | None \<Rightarrow> st2)
                     in notifyGPSUpdate
                          \<lparr>lu_current = ws_currentGPS st3,
                           lu_previous = ws_previousGPS st3,
                           lu_status = (case msg_s gpsData of
                                          None \<Rightarrow> ''active''
                                        | Some str \<Rightarrow> if str = [] then ''active'' else str),
                           lu_source = src,
                           lu_timestamp = now\<rparr>
                          st3)))"

text \<open>The handlers of \<open>gps-data\<close>, \<open>gps-data-update\<close> and \<open>gps-error\<close>.\<close>

definition on_gps_data :: "int \<Rightarrow> raw_message option \<Rightarrow> ('w service, unit) comp" where
  "on_gps_data now data st =
     ws_processGPSData now data ''websocket-request''
       (ws_log (ConsoleLog ''GPS data received via request:'') st)"

definition on_gps_data_update :: "int \<Rightarrow> raw_message option \<Rightarrow> ('w service, unit) comp" where
  "on_gps_data_update now data st =
     ws_processGPSData now data ''websocket-broadcast''
       (ws_log (ConsoleLog ''GPS data broadcast received:'') st)"

definition on_gps_error :: "string option \<Rightarrow> ('w service, unit) comp" where
  "on_gps_error message st =
     notifyError (case message of
                    None \<Rightarrow> ''GPS data error''
                  | Some str \<Rightarrow> if str = [] then ''GPS data error'' else str)
       (ws_log (ConsoleWarn ''GPS data error:'') st)"

subsection \<open>A concrete service\<close>

text \<open>
  A service whose subscribers append what they receive to a list of strings: one update
  subscriber, one connection subscriber that throws after appending, a second connection
  subscriber, and one error subscriber; and the same service once its socket has
  connected.
\<close>

definition local_config :: config where
  "local_config = \<lparr>serverUrl = ''ws://localhost:3000'', reconnection = True,
                    reconnectionAttempts = 5, reconnectionDelay = 1000, timeout = 5000\<rparr>"

definition listening :: "string list service" where
  "listening =
     onError (\<lambda>msg w. (Inr (), w @ [''error'']))
       (onConnectionChange (\<lambda>c w. (Inr (), w @ [''second'']))
          (onConnectionChange (\<lambda>c w. (Inl (Thrown ''boom''), w @ [''first'']))
             (onGPSUpdate (\<lambda>u w. (Inr (), w @ [''update'']))
                (snd (WebSocketGPSService local_config 1000000 [])))))"

definition connected_service :: "string list service" where
  "connected_service = snd (socket_connects listening)"

definition wire_point :: "real \<Rightarrow> real \<Rightarrow> raw_point" where
  "wire_point la lo = \<lparr>raw_lat = JNum (JFin la), raw_lon = JNum (JFin lo),
                        raw_t = JStr ''2024-01-01T00:00:00.000Z''\<rparr>"

definition message_without_c :: raw_message where
  "message_without_c = \<lparr>msg_c = None, msg_p = Some (wire_point (135 / 10) (1007 / 10)),
                         msg_s = None\<rparr>"

definition message_without_p :: raw_message where
  "message_without_p = \<lparr>msg_c = Some (wire_point (136 / 10) (1008 / 10)), msg_p = None,
                         msg_s = None\<rparr>"

definition message_complete :: raw_message where
  "message_complete = \<lparr>msg_c = Some (wire_point (136 / 10) (1008 / 10)),
                        msg_p = Some (wire_point (135 / 10) (1007 / 10)), msg_s = None\<rparr>"

text \<open>Points whose latitude is not a number: a string with a numeric prefix, a string
  without one, and an array of one number.\<close>

definition point_with_lat :: "jsval \<Rightarrow> raw_point" where
  "point_with_lat v = \<lparr>raw_lat = v, raw_lon = JNum (JFin (1008 / 10)), raw_t = JUndefined\<rparr>"


section \<open>TramTracker: status tracking for display\<close>

record location =
  loc_lat :: real
  loc_lon :: real
  loc_timestamp :: int

record building =
  b_id :: string
  b_name :: string
  b_displayName :: string
  b_lat :: real
  b_lon :: real
  b_radius :: real
  b_stopIndex :: nat

text \<open>The object handed to a status-change callback.\<close>

record status_change =
  oldStatus :: "string option"
  newStatus :: string
  sc_location :: "location option"
  sc_timestamp :: int

text \<open>
  The fields of a \<open>TramTracker\<close>, and \<open>tt_world\<close>, the state its callbacks run on.
  Fields that other classes of the repository also have carry the prefix \<open>tt_\<close>.
\<close>

record 'w tracker =
  currentStatus :: string
  currentLocation :: "location option"
  lastLocation :: "location option"
  tt_isMoving :: bool
  lastPassedBuilding :: "building option"
  movementThreshold :: real
  stoppedDuration :: int
  locationHistory :: "location list"
  maxHistoryLength :: nat
  tt_lastUpdateTime :: int
  lastMovementTime :: int
  buildings :: "building list"
  statusChangeCallbacks :: "('w, status_change) callback list"
  lastNotifiedStatus :: "string option"
  tt_world :: 'w

record tracking_info =
  ti_status :: string
  ti_isMoving :: bool
  ti_currentLocation :: "location option"
  ti_lastPassedBuilding :: "building option"
  ti_timestamp :: int
  locationHistoryLength :: nat
  timeSinceLastMovement :: int

definition campus_buildings :: "building list" where
  "campus_buildings =
     [\<lparr>b_id = ''msm_building'', b_name = ''MSM Building'', b_displayName = ''MSM Building'',
       b_lat = 13612565 / 1000000, b_lon = 100836516 / 1000000, b_radius = 5 / 10000,
       b_stopIndex = 0\<rparr>,
      \<lparr>b_id = ''it_building'', b_name = ''IT Building'', b_displayName = ''IT Building'',
       b_lat = 13612177 / 1000000, b_lon = 100836425 / 1000000, b_radius = 5 / 10000,
       b_stopIndex = 1\<rparr>,
      \<lparr>b_id = ''au_mall'', b_name = ''AU Mall'', b_displayName = ''AU Mall'',
       b_lat = 13612764 / 1000000, b_lon = 100833440 / 1000000, b_radius = 5 / 10000,
       b_stopIndex = 2\<rparr>,
      \<lparr>b_id = ''queen_of_sheba'', b_name = ''Queen of Sheba'', b_displayName = ''Queen of Sheba'',
       b_lat = 13614219 / 1000000, b_lon = 100832132 / 1000000, b_radius = 5 / 10000,
       b_stopIndex = 3\<rparr>]"

text \<open>The constructor; \<open>now\<close> is the clock when it runs.\<close>

definition TramTracker :: "int \<Rightarrow> 'w \<Rightarrow> 'w tracker" where
  "TramTracker now w =
     \<lparr>currentStatus = ''Stopped'', currentLocation = None, lastLocation = None,
      tt_isMoving = False, lastPassedBuilding = None,
      movementThreshold = 1 / 100000, stoppedDuration = 30 * 60 * 1000,
      locationHistory = [], maxHistoryLength = 10,
      tt_lastUpdateTime = now, lastMovementTime = now,
      buildings = campus_buildings, statusChangeCallbacks = [],
      lastNotifiedStatus = None, tt_world = w\<rparr>"

definition addToHistory :: "location \<Rightarrow> 'w tracker \<Rightarrow> 'w tracker" where
  "addToHistory loc st =
     (let st1 = st\<lparr>locationHistory := locationHistory st @ [loc]\<rparr>
      in if length (locationHistory st1) > maxHistoryLength st1
         then st1\<lparr>locationHistory := tl (locationHistory st1)\<rparr>
         else st1)"

definition degreesToRadians :: "real \<Rightarrow> real" where
  "degreesToRadians degrees = degrees * (pi / 180)"

definition calculateDistance :: "real \<Rightarrow> real \<Rightarrow> real \<Rightarrow> real \<Rightarrow> real" where
  "calculateDistance lat1 lon1 lat2 lon2 =
     (let R = 6371000;
          dLat = degreesToRadians (lat2 - lat1);
          dLon = degreesToRadians (lon2 - lon1);
          a = sin (dLat / 2) * sin (dLat / 2) +
              cos (degreesToRadians lat1) * cos (degreesToRadians lat2) *
              sin (dLon / 2) * sin (dLon / 2);
          c = 2 * atan2 (sqrt a) (sqrt (1 - a))
      in R * c)"

text \<open>The \<open>for\<close> loop of \<open>detectBuilding\<close>, which returns at the first building in range.\<close>

fun detectBuilding_loop ::
  "building list \<Rightarrow> real \<Rightarrow> real \<Rightarrow> 'w tracker \<Rightarrow> building option \<times> 'w tracker" where
  "detectBuilding_loop [] la lo st = (None, st)"
| "detectBuilding_loop (b # bs) la lo st =
     (let distance = calculateDistance la lo (b_lat b) (b_lon b)
      in if distance \<le> b_radius b
         then (Some b,
               if (case lastPassedBuilding st of
                     None \<Rightarrow> True
                   | Some lp \<Rightarrow> b_id b \<noteq> b_id lp)
               then st\<lparr>lastPassedBuilding := Some b\<rparr>
               else st)
         else detectBuilding_loop bs la lo st)"

definition detectBuilding :: "real \<Rightarrow> real \<Rightarrow> 'w tracker \<Rightarrow> building option \<times> 'w tracker" where
  "detectBuilding la lo st = detectBuilding_loop (buildings st) la lo st"

definition detectMovement :: "int \<Rightarrow> 'w tracker \<Rightarrow> 'w tracker" where
  "detectMovement now st =
     (case (lastLocation st, currentLocation st) of
        (Some l, Some c) \<Rightarrow>
          (let distance = calculateDistance (loc_lat l) (loc_lon l) (loc_lat c) (loc_lon c)
           in if distance > movementThreshold st
              then st\<lparr>tt_isMoving := True, lastMovementTime := now\<rparr>
              else (let timeSinceMovement = now - lastMovementTime st
                    in st\<lparr>tt_isMoving := (timeSinceMovement < stoppedDuration st)\<rparr>))
      | _ \<Rightarrow> st\<lparr>tt_isMoving := False\<rparr>)"

text \<open>A callback of the tracker, run on the subscribers' state.\<close>

definition tt_call :: "('w, 'a) callback \<Rightarrow> 'a \<Rightarrow> ('w tracker, unit) comp" where
  "tt_call cb v st =
     (case cb v (tt_world st) of (r, w') \<Rightarrow> (r, st\<lparr>tt_world := w'\<rparr>))"

definition checkStatusChange :: "int \<Rightarrow> ('w tracker, unit) comp" where
  "checkStatusChange now st =
     (if Some (currentStatus st) \<noteq> lastNotifiedStatus st
      then andThen
             (forEach (statusChangeCallbacks st)
                (\<lambda>cb. tryCatch
                         (\<lambda>s. tt_call cb
                                \<lparr>oldStatus = lastNotifiedStatus s, newStatus = currentStatus s,
                                 sc_location = currentLocation s, sc_timestamp = now\<rparr> s)
                         (\<lambda>e s. (Inr (), s))))
             (\<lambda>u s. (Inr (), s\<lparr>lastNotifiedStatus := Some (currentStatus s)\<rparr>))
             st
      else (Inr (), st))"

definition updateStatus :: "int \<Rightarrow> ('w tracker, unit) comp" where
  "updateStatus now st =
     (let timeSinceMovement = now - lastMovementTime st;
          st1 = (if timeSinceMovement \<ge> stoppedDuration st
                 then st\<lparr>currentStatus := ''Stopped''\<rparr>
                 else st\<lparr>currentStatus := ''Running''\<rparr>)
      in checkStatusChange now st1)"

definition getTrackingInfo :: "int \<Rightarrow> 'w tracker \<Rightarrow> tracking_info" where
  "getTrackingInfo now st =
     \<lparr>ti_status = currentStatus st, ti_isMoving = tt_isMoving st,
      ti_currentLocation = currentLocation st,
      ti_lastPassedBuilding = lastPassedBuilding st,
      ti_timestamp = now,
      locationHistoryLength = length (locationHistory st),
      timeSinceLastMovement = now - lastMovementTime st\<rparr>"

text \<open>\<open>updatePosition(lat, lon)\<close> at clock \<open>now\<close>.\<close>

definition updatePosition :: "real \<Rightarrow> real \<Rightarrow> int \<Rightarrow> ('w tracker, tracking_info) comp" where
  "updatePosition la lo now st =
     (let currentTime = now;
          newLocation = \<lparr>loc_lat = la, loc_lon = lo, loc_timestamp = currentTime\<rparr>;
          st1 = st\<lparr>lastLocation := currentLocation st\<rparr>;
          st2 = st1\<lparr>currentLocation := Some newLocation\<rparr>;
          st3 = addToHistory newLocation st2;
          st4 = detectMovement now st3;
          st5 = snd (detectBuilding la lo st4)
      in andThen (updateStatus now)
           (\<lambda>u s. (let s1 = s\<lparr>tt_lastUpdateTime := currentTime\<rparr>
                    in (Inr (getTrackingInfo now s1), s1)))
           st5)"

definition reset :: "int \<Rightarrow> 'w tracker \<Rightarrow> 'w tracker" where
  "reset now st =
     st\<lparr>currentStatus := ''Stopped'', currentLocation := None, lastLocation := None,
        tt_isMoving := False, lastPassedBuilding := None, locationHistory := [],
        tt_lastUpdateTime := now, lastMovementTime := now\<rparr>"

text \<open>\<open>onStatusChange(callback)\<close> for a callback that is a function.\<close>

definition onStatusChange :: "('w, status_change) callback \<Rightarrow> 'w tracker \<Rightarrow> 'w tracker" where
  "onStatusChange cb st = st\<lparr>statusChangeCallbacks := statusChangeCallbacks st @ [cb]\<rparr>"

text \<open>
  The calls a client makes on a tracker, and a tracker's life: the constructor followed
  by any calls. A call that throws leaves the state it had reached.
\<close>

datatype 'w tracker_call =
  UpdatePosition real real int
| Reset int
| OnStatusChange "('w, status_change) callback"

fun tracker_step :: "'w tracker_call \<Rightarrow> 'w tracker \<Rightarrow> 'w tracker" where
  "tracker_step (UpdatePosition la lo now) st = snd (updatePosition la lo now st)"
| "tracker_step (Reset now) st = reset now st"
| "tracker_step (OnStatusChange cb) st = onStatusChange cb st"

definition tracker_run :: "'w tracker_call list \<Rightarrow> 'w tracker \<Rightarrow> 'w tracker" where
  "tracker_run calls st = fold tracker_step calls st"


text \<open>A list of arrivals \<open>(lat, lon, clock)\<close>: the locations they create and the calls
  that deliver them.\<close>

definition arrival :: "real \<times> real \<times> int \<Rightarrow> location" where
  "arrival a = (case a of (la, lo, t) \<Rightarrow> \<lparr>loc_lat = la, loc_lon = lo, loc_timestamp = t\<rparr>)"

definition update_call :: "real \<times> real \<times> int \<Rightarrow> 'w tracker_call" where
  "update_call a = (case a of (la, lo, t) \<Rightarrow> UpdatePosition la lo t)"



section \<open>PositionReconciler: TramMovement\<close>

subsection \<open>The tram object and the animation engine\<close>

record vec3 =
  pos_x :: real
  pos_y :: real
  pos_z :: real

text \<open>The scene object: its position and its rotation about the vertical axis.\<close>

record tram_object =
  position :: vec3
  rotation_y :: real

text \<open>
  A tween of a timeline, as passed to \<open>tl.to\<close>: of the rotation (duration, target
  \<open>y\<close>, ease) or of the position (duration, target \<open>x\<close>, \<open>y\<close>, \<open>z\<close>, ease). A
  timeline plays its tweens one after the other.
\<close>

datatype tween =
  TweenRotation real real string
| TweenPosition real real real real string

type_synonym timeline = "tween list"

text \<open>The calls made on the animation engine: a timeline built and left to play, and
  \<open>kill()\<close> on a timeline.\<close>

datatype gsap_call = TimelinePlay timeline | TimelineKill timeline

subsection \<open>Updates and state\<close>

text \<open>The object delivered to the update subscriber.\<close>

record update =
  current :: "gps option"
  previous :: "gps option"
  status :: string
  source :: "string option"
  receivedAt :: int

text \<open>
  The fields of a \<open>TramMovement\<close> that the handling of an update reads or writes.
  \<open>gsap\<close> is the sequence of calls made on the animation engine and \<open>console\<close> the
  console output with the clock at which each line was written; \<open>devHost\<close> says whether
  \<open>window.location.hostname\<close> is \<open>localhost\<close>.
\<close>

record movement =
  tram :: "tram_object option"
  isMoving :: bool
  baseHeight :: real
  currentTween :: "timeline option"
  tramSpeed :: real
  rotationSpeed :: real
  currentGPS :: "gps option"
  previousGPS :: "gps option"
  lastUpdateTime :: int
  centerLat :: real
  centerLon :: real
  scale :: real
  lastKnownPosition :: "vec3 option"
  lastStaleWarning :: int
  gsap :: "gsap_call list"
  console :: "(int \<times> console_entry) list"
  devHost :: bool

text \<open>The constructor, for a tram and an optional list of static points that fixes the
  centre of the scene coordinates.\<close>

definition TramMovement :: "tram_object option \<Rightarrow> gps list \<Rightarrow> bool \<Rightarrow> movement" where
  "TramMovement tr gpsPoints dev =
     \<lparr>tram = tr, isMoving = False, baseHeight = - (3 / 10), currentTween = None,
      tramSpeed = 10, rotationSpeed = 1,
      currentGPS = None, previousGPS = None, lastUpdateTime = 0,
      centerLat = (case gpsPoints of
                     [] \<Rightarrow> 13612565 / 1000000
                   | firstPoint # rest \<Rightarrow> (lat firstPoint + lat (last gpsPoints)) / 2),
      centerLon = (case gpsPoints of
                     [] \<Rightarrow> 100836516 / 1000000
                   | firstPoint # rest \<Rightarrow> (lon firstPoint + lon (last gpsPoints)) / 2),
      scale = 100000,
      lastKnownPosition = None, lastStaleWarning = 0,
      gsap = [], console = [], devHost = dev\<rparr>"

subsection \<open>Operations\<close>

definition calculatePosition :: "movement \<Rightarrow> real \<Rightarrow> real \<Rightarrow> vec3" where
  "calculatePosition st la lo =
     \<lparr>pos_x = (la - centerLat st) * scale st,
      pos_y = baseHeight st,
      pos_z = (lo - centerLon st) * scale st\<rparr>"

definition write_console :: "int \<Rightarrow> console_entry \<Rightarrow> movement \<Rightarrow> movement" where
  "write_console now e st = st\<lparr>console := console st @ [(now, e)]\<rparr>"

definition positionTramImmediately :: "int \<Rightarrow> real \<Rightarrow> real \<Rightarrow> movement \<Rightarrow> movement" where
  "positionTramImmediately now la lo st =
     (case tram st of
        None \<Rightarrow> st
      | Some t \<Rightarrow>
          (let pos = calculatePosition st la lo;
               st1 = st\<lparr>tram := Some (t\<lparr>position := pos\<rparr>)\<rparr>;
               st2 = st1\<lparr>lastKnownPosition := Some pos\<rparr>
           in write_console now (ConsoleLog ''Tram positioned immediately at:'') st2))"

text \<open>The two \<open>if\<close> statements that wrap the rotation difference.\<close>

definition wrapRotation :: "real \<Rightarrow> real" where
  "wrapRotation rotationDiff =
     (let d1 = (if rotationDiff > pi then rotationDiff - 2 * pi else rotationDiff)
      in if d1 < - pi then d1 + 2 * pi else d1)"

text \<open>
  \<open>updateTramPosition\<close>. The two divisions are by the configured speeds; a JavaScript
  division by zero gives an infinity where HOL gives \<open>0\<close>, so statements about the
  durations assume positive speeds (the constructor sets 10 and 1, and \<open>setSpeed\<close>
  keeps the linear speed at 1 or more).
\<close>

definition updateTramPosition :: "movement \<Rightarrow> movement" where
  "updateTramPosition st =
     (case (tram st, currentGPS st, previousGPS st) of
        (Some t, Some cur, Some prev) \<Rightarrow>
          (let currentPosition = calculatePosition st (lat cur) (lon cur);
               previousPosition = calculatePosition st (lat prev) (lon prev);
               st1 = st\<lparr>lastKnownPosition := Some currentPosition\<rparr>;
               dx = pos_x currentPosition - pos_x previousPosition;
               dz = pos_z currentPosition - pos_z previousPosition;
               distance = sqrt (dx * dx + dz * dz)
           in if distance < 1 / 2 then st1
              else
                (let st2 = (case currentTween st1 of
                              Some old \<Rightarrow> st1\<lparr>gsap := gsap st1 @ [TimelineKill old]\<rparr>
                            | None \<Rightarrow> st1);
                     duration = max 1 (distance / tramSpeed st2);
                     modelForwardOffset = - pi / 2;
                     targetRotation = atan2 dx dz + modelForwardOffset;
                     currentRotation = rotation_y t;
                     rotationDiff = wrapRotation (targetRotation - currentRotation);
                     tween1 = (if \<bar>rotationDiff\<bar> > 5 / 100
                            then [TweenRotation
                                    (min 1 (\<bar>rotationDiff\<bar> / rotationSpeed st2))
                                    (currentRotation + rotationDiff) ''power2.inOut'']
                            else []);
                     timeline = tween1 @ [TweenPosition duration
                                    (pos_x currentPosition) (pos_y currentPosition)
                                    (pos_z currentPosition) ''none'']
                 in st2\<lparr>gsap := gsap st2 @ [TimelinePlay timeline],
                        currentTween := Some timeline, isMoving := True\<rparr>))
      | _ \<Rightarrow> st)"

text \<open>The \<open>onComplete\<close> callback of the position tween.\<close>

definition onComplete :: "movement \<Rightarrow> movement" where
  "onComplete st = st\<lparr>isMoving := False\<rparr>"

definition stopTramMovement :: "movement \<Rightarrow> movement" where
  "stopTramMovement st =
     (let st1 = (case currentTween st of
                   Some tween \<Rightarrow> st\<lparr>gsap := gsap st @ [TimelineKill tween], currentTween := None\<rparr>
                 | None \<Rightarrow> st)
      in st1\<lparr>isMoving := False\<rparr>)"

text \<open>\<open>processGPSData(gpsData)\<close> of \<open>TramMovement\<close> at clock \<open>now\<close>.\<close>

definition processGPSData :: "int \<Rightarrow> update \<Rightarrow> movement \<Rightarrow> movement" where
  "processGPSData now gpsData st =
     (case current gpsData of
        Some cur \<Rightarrow>
          (let isStale = isGPSDataStale now (timestamp cur) defaultMaxAgeMs
           in if isStale
              then (let st1 = (if lastStaleWarning st = 0 \<or> now - lastStaleWarning st > 30000
                               then (write_console now
                                       (ConsoleWarn ''GPS data is stale - keeping tram stationary'') st)
                                    \<lparr>lastStaleWarning := now\<rparr>
                               else st)
                    in stopTramMovement st1)
              else if currentGPS st = None
              then (let st1 = write_console now
                                (ConsoleLog ''Initial tram positioning from GPS:'') st;
                        st2 = st1\<lparr>currentGPS := Some cur\<rparr>;
                        st3 = st2\<lparr>previousGPS := (case previous gpsData of
                                                    Some prev \<Rightarrow> Some prev
                                                  | None \<Rightarrow> Some cur)\<rparr>;
                        st4 = positionTramImmediately now (lat cur) (lon cur) st3
                    in st4\<lparr>lastUpdateTime := now\<rparr>)
              else (let hasChanged = hasGPSChanged (Some cur) (currentGPS st)
                    in if \<not> hasChanged then stopTramMovement st
                       else (let st1 = st\<lparr>previousGPS := currentGPS st\<rparr>;
                                 st2 = st1\<lparr>currentGPS := Some cur\<rparr>;
                                 st3 = updateTramPosition st2;
                                 st4 = st3\<lparr>lastUpdateTime := now\<rparr>
                             in if devHost st4
                                then write_console now (ConsoleLog ''Tram moving to:'') st4
                                else st4)))
      | None \<Rightarrow>
          stopTramMovement
            (write_console now (ConsoleWarn ''No current GPS data - keeping tram stationary'') st))"

text \<open>
  \<open>handleGPSUpdate\<close>, the update subscriber. Nothing in \<open>processGPSData\<close> throws on
  an update of this type, so the \<open>catch\<close> branch is not taken.
\<close>

definition handleGPSUpdate :: "int \<Rightarrow> update \<Rightarrow> movement \<Rightarrow> movement" where
  "handleGPSUpdate now gpsData st =
     (case current gpsData of
        Some cur \<Rightarrow> processGPSData now gpsData st
      | None \<Rightarrow>
          stopTramMovement
            (write_console now (ConsoleWarn ''No current GPS data in WebSocket update'') st))"

text \<open>Updates delivered one after the other, each with the clock at its delivery.\<close>

fun processAll :: "(int \<times> update) list \<Rightarrow> movement \<Rightarrow> movement" where
  "processAll [] st = st"
| "processAll ((now, u) # rest) st = processAll rest (processGPSData now u st)"

text \<open>The clocks at which the staleness warning was written.\<close>

definition staleWarnings :: "(int \<times> console_entry) list \<Rightarrow> int list" where
  "staleWarnings entries =
     map fst (filter (\<lambda>e. snd e = ConsoleWarn ''GPS data is stale - keeping tram stationary'')
                entries)"

text \<open>The timelines started by a sequence of engine calls.\<close>

definition started :: "gsap_call list \<Rightarrow> timeline list" where
  "started calls = concat (map (\<lambda>c. case c of TimelinePlay t \<Rightarrow> [t] | TimelineKill t \<Rightarrow> []) calls)"


text \<open>A run of deliveries whose points are all stale when they arrive, by a clock that
  reads a positive number of milliseconds.\<close>

definition all_stale :: "(int \<times> update) list \<Rightarrow> bool" where
  "all_stale us =
     list_all (\<lambda>(now, u). 0 < now \<and>
                 (case current u of
                    Some cur \<Rightarrow> isGPSDataStale now (timestamp cur) defaultMaxAgeMs
                  | None \<Rightarrow> False)) us"

subsection \<open>A concrete scene\<close>

text \<open>
  A tram placed by the scene code with its rotation at \<open>pi\<close>; a first point at
  \<open>(13.6, 100.8)\<close>, the same coordinates reported again two seconds later, and a point
  one thousandth of a degree of longitude further, which is 100 scene units away.
\<close>

definition scene_tram :: tram_object where
  "scene_tram = \<lparr>position = \<lparr>pos_x = 0, pos_y = - (3 / 10), pos_z = 0\<rparr>, rotation_y = pi\<rparr>"

definition point_before :: gps where
  "point_before = \<lparr>lat = 135 / 10, lon = 1007 / 10, timestamp = Millis 995000\<rparr>"

definition point_a :: gps where
  "point_a = \<lparr>lat = 136 / 10, lon = 1008 / 10, timestamp = Millis 1000000\<rparr>"

definition point_a_again :: gps where
  "point_a_again = \<lparr>lat = 136 / 10, lon = 1008 / 10, timestamp = Millis 1002000\<rparr>"

definition point_b :: gps where
  "point_b = \<lparr>lat = 136 / 10, lon = 100801 / 1000, timestamp = Millis 1004000\<rparr>"

definition delivery :: "gps \<Rightarrow> gps option \<Rightarrow> int \<Rightarrow> update" where
  "delivery cur prev clock =
     \<lparr>current = Some cur, previous = prev, status = ''active'',
      source = Some ''websocket-broadcast'', receivedAt = clock\<rparr>"

definition fresh_movement :: movement where
  "fresh_movement = TramMovement (Some scene_tram) [] False"

text \<open>The timeline that moves the tram to \<open>point_a\<close>, and a reconciler that has accepted
  \<open>point_a\<close>, with the tram's rotation and the timeline in flight given.\<close>

definition approach :: timeline where
  "approach = [TweenPosition 10 (- (12565 / 10)) (- (3 / 10)) (- (36516 / 10)) ''none'']"

definition tracking :: "real \<Rightarrow> timeline option \<Rightarrow> movement" where
  "tracking rot running =
     fresh_movement\<lparr>tram := Some (scene_tram\<lparr>rotation_y := rot\<rparr>),
                    currentGPS := Some point_a, previousGPS := Some point_before,
                    currentTween := running, isMoving := (running \<noteq> None)\<rparr>"


text \<open>The staleness warning.\<close>

definition stale_warning :: console_entry where
  "stale_warning = ConsoleWarn ''GPS data is stale - keeping tram stationary''"

text \<open>Three deliveries of \<open>point_b\<close> long after its timestamp.\<close>

definition stale_run3 :: "(int \<times> update) list" where
  "stale_run3 = [(2000000, delivery point_b None 2000000),
                 (2010000, delivery point_b None 2010000),
                 (2040001, delivery point_b None 2040001)]"


section \<open>Properties of the validator\<close>

lemma js_range_iff:
  "(\<not> isNaN x \<and> js_ge x lo \<and> js_le x hi) = (\<exists>r. x = JFin r \<and> lo \<le> r \<and> r \<le> hi)"
  by (cases x) (simp_all add: isNaN_def)

text \<open>
  C6. For every point \<open>p\<close>, \<open>hasChanged(p, p)\<close> is false and \<open>hasChanged(p, null)\<close> is
  true; for every new point, \<open>hasChanged(newPoint, oldPoint)\<close> is true exactly when
  \<open>oldPoint\<close> is absent or the latitudes or the longitudes differ by more than the
  tolerance, which is \<open>5 * 10^-6\<close> degrees.
\<close>

theorem hasGPSChanged_spec:
  "hasGPSChanged (Some p) (Some p) = False \<and>
   hasGPSChanged (Some p) None = True \<and>
   hasGPSChanged (Some newPoint) oldPoint =
     (oldPoint = None \<or>
      (\<exists>old. oldPoint = Some old \<and>
         (\<bar>lat newPoint - lat old\<bar> > 5 / 10 ^ 6 \<or> \<bar>lon newPoint - lon old\<bar> > 5 / 10 ^ 6)))"
  by (cases oldPoint) (simp_all add: hasGPSChanged_def)

lemmas parse_defs = parseFloat_string_def StrDecimalLiteral_def unsigned_literal_def
  mantissa_def exponent_part_def signed_integer_def strip_sign_def digits_value_def
  is_digit_def digit_value_def is_white_def scale10_def negate_def List.map_filter_def Let_def

lemma parseFloat_words:
  "parseFloat_string ''undefined'' = JNaN" "parseFloat_string ''null'' = JNaN"
  "parseFloat_string ''true'' = JNaN" "parseFloat_string ''false'' = JNaN"
  by (simp_all add: parse_defs)

lemma coordinate_parseFloat: "coordinate v = parseFloat v"
  by (cases v) (simp_all add: coordinate_def)

lemma parseFloat_reading: "parseFloat v = numeric_reading v"
  by (cases v) (simp_all add: parseFloat_words)

lemma literal_needs_start:
  assumes "\<not> numeral_start ch"
  shows "StrDecimalLiteral (ch # rest) = None"
proof -
  have ns: "ch \<noteq> CHR ''-''" "ch \<noteq> CHR ''+''" "ch \<noteq> CHR ''.''" "ch \<noteq> CHR ''I''" "\<not> is_digit ch"
    using assms by (auto simp add: numeral_start_def is_digit_def)
  have strip: "strip_sign (ch # rest) = (False, ch # rest)"
    using ns by (simp add: strip_sign_def)
  have m: "mantissa (takeWhile (\<lambda>c. c \<noteq> CHR ''e'' \<and> c \<noteq> CHR ''E'') (ch # rest)) = None"
    using ns by (simp add: mantissa_def)
  have inf: "ch # rest \<noteq> ''Infinity''" using ns by auto
  have "unsigned_literal (ch # rest) = None"
    unfolding unsigned_literal_def Let_def using m inf by (simp only: if_False) simp
  then show ?thesis unfolding StrDecimalLiteral_def strip by simp
qed

lemma literal_empty: "StrDecimalLiteral [] = None"
  by (simp add: StrDecimalLiteral_def strip_sign_def unsigned_literal_def mantissa_def)

lemma no_numeral_NaN:
  assumes "\<And>ch rest. dropWhile is_white str = ch # rest \<Longrightarrow> \<not> numeral_start ch"
  shows "parseFloat_string str = JNaN"
proof -
  let ?t = "dropWhile is_white str"
  have "StrDecimalLiteral q = None" if "q \<in> set (prefixes ?t)" for q
  proof (cases q)
    case Nil
    then show ?thesis by (simp add: literal_empty)
  next
    case (Cons ch q')
    from that have "prefix q ?t" by simp
    then obtain rest where "?t = ch # rest" using Cons by (auto simp add: prefix_def)
    then have "\<not> numeral_start ch" by (rule assms)
    then show ?thesis unfolding Cons by (rule literal_needs_start)
  qed
  then have "List.map_filter StrDecimalLiteral (prefixes ?t) = []"
    by (auto simp add: List.map_filter_def filter_empty_conv)
  then show ?thesis by (simp add: parseFloat_string_def Let_def)
qed

lemma valid_reading:
  "isValidGPSData (Some d) =
     (\<exists>la lo. numeric_reading (raw_lat d) = JFin la \<and> numeric_reading (raw_lon d) = JFin lo \<and>
        - 90 \<le> la \<and> la \<le> 90 \<and> - 180 \<le> lo \<and> lo \<le> 180)"
proof -
  let ?a = "numeric_reading (raw_lat d)" and ?b = "numeric_reading (raw_lon d)"
  have "isValidGPSData (Some d) =
          ((\<not> isNaN ?a \<and> js_ge ?a (- 90) \<and> js_le ?a 90) \<and>
           (\<not> isNaN ?b \<and> js_ge ?b (- 180) \<and> js_le ?b 180))"
    by (auto simp add: isValidGPSData_def Let_def coordinate_parseFloat parseFloat_reading)
  also have "\<dots> = ((\<exists>la. ?a = JFin la \<and> - 90 \<le> la \<and> la \<le> 90) \<and>
                   (\<exists>lo. ?b = JFin lo \<and> - 180 \<le> lo \<and> lo \<le> 180))"
    by (simp only: js_range_iff)
  finally show ?thesis by auto
qed

text \<open>
  C7, as the code has it. \<open>isValid(point)\<close> is false for an absent point, and for a
  present point it is true exactly when both coordinates read as finite numbers, the
  latitude in \<open>[-90, 90]\<close> and the longitude in \<open>[-180, 180]\<close>, where a number reads as
  itself and any other value reads as the longest decimal-literal prefix of its string
  form. So NaN, the infinities, out-of-range numbers, \<open>undefined\<close>, \<open>null\<close>, booleans and
  every string whose first character after white space cannot begin a numeral give false;
  a string or array that only begins with a numeral is read as that numeral.
\<close>

theorem isValidGPSData_reads:
  "isValidGPSData None = False \<and>
   isValidGPSData (Some d) =
     (\<exists>la lo. numeric_reading (raw_lat d) = JFin la \<and> numeric_reading (raw_lon d) = JFin lo \<and>
        - 90 \<le> la \<and> la \<le> 90 \<and> - 180 \<le> lo \<and> lo \<le> 180) \<and>
   ((\<forall>ch rest. dropWhile is_white str = ch # rest \<longrightarrow> \<not> numeral_start ch) \<longrightarrow>
      \<not> isValidGPSData (Some (d\<lparr>raw_lat := JStr str\<rparr>)) \<and>
      \<not> isValidGPSData (Some (d\<lparr>raw_lon := JStr str\<rparr>)))"
proof (intro conjI impI)
  show "isValidGPSData None = False" by (simp add: isValidGPSData_def)
  show "isValidGPSData (Some d) =
     (\<exists>la lo. numeric_reading (raw_lat d) = JFin la \<and> numeric_reading (raw_lon d) = JFin lo \<and>
        - 90 \<le> la \<and> la \<le> 90 \<and> - 180 \<le> lo \<and> lo \<le> 180)"
    by (rule valid_reading)
next
  assume a: "\<forall>ch rest. dropWhile is_white str = ch # rest \<longrightarrow> \<not> numeral_start ch"
  have nan: "parseFloat_string str = JNaN"
    by (rule no_numeral_NaN) (use a in blast)
  show "\<not> isValidGPSData (Some (d\<lparr>raw_lat := JStr str\<rparr>))"
    by (simp add: valid_reading nan)
  show "\<not> isValidGPSData (Some (d\<lparr>raw_lon := JStr str\<rparr>))"
    by (simp add: valid_reading nan)
qed

text \<open>
  Numbers in range are accepted; a latitude of 91, a latitude NaN, the string \<open>abc\<close> and
  the empty string are rejected; the array \<open>[13.6]\<close> is accepted.
\<close>

theorem isValidGPSData_reads_witness:
  "isValidGPSData (Some (wire_point (136 / 10) (1008 / 10))) \<and>
   \<not> isValidGPSData (Some (wire_point 91 (1008 / 10))) \<and>
   \<not> isValidGPSData (Some (point_with_lat (JNum JNaN))) \<and>
   \<not> isValidGPSData (Some (point_with_lat (JStr ''abc''))) \<and>
   \<not> isValidGPSData (Some (point_with_lat (JStr []))) \<and>
   isValidGPSData (Some (point_with_lat (JObject ''13.6'')))"
proof -
  note r = isValidGPSData_reads[THEN conjunct2, THEN conjunct1]
  have s1: "\<forall>ch rest. dropWhile is_white ''abc'' = ch # rest \<longrightarrow> \<not> numeral_start ch"
    by (simp add: is_white_def numeral_start_def)
  have s2: "\<forall>ch rest. dropWhile is_white [] = ch # rest \<longrightarrow> \<not> numeral_start ch"
    by simp
  have a: "\<not> isValidGPSData (Some (point_with_lat (JStr ''abc'')))"
    using isValidGPSData_reads[where d = "point_with_lat JUndefined" and str = "''abc''",
        THEN conjunct2, THEN conjunct2, THEN mp, OF s1]
    by (simp add: point_with_lat_def)
  have b: "\<not> isValidGPSData (Some (point_with_lat (JStr [])))"
    using isValidGPSData_reads[where d = "point_with_lat JUndefined" and str = "[]",
        THEN conjunct2, THEN conjunct2, THEN mp, OF s2]
    by (simp add: point_with_lat_def)
  have arr: "parseFloat_string ''13.6'' = JFin (136 / 10)"
    by (simp add: parse_defs)
  have c: "\<not> isValidGPSData (Some (wire_point 91 (1008 / 10)))"
          "\<not> isValidGPSData (Some (point_with_lat (JNum JNaN)))"
    by (simp_all add: r wire_point_def point_with_lat_def)
  have e: "isValidGPSData (Some (wire_point (136 / 10) (1008 / 10)))"
          "isValidGPSData (Some (point_with_lat (JObject ''13.6'')))"
    by (simp_all add: isValidGPSData_def coordinate_def isNaN_def wire_point_def
        point_with_lat_def arr)
  show ?thesis using a b c e by blast
qed

text \<open>
  The string \<open>13.6abc\<close> is not numeric, and as a latitude it is accepted: it reads as
  13.6.
\<close>

theorem trailing_text_counterexample:
  "parseFloat_string ''13.6abc'' = JFin (136 / 10) \<and>
   isValidGPSData (Some \<lparr>raw_lat = JStr ''13.6abc'', raw_lon = JNum (JFin (1008 / 10)),
                         raw_t = JUndefined\<rparr>) = True"
proof -
  have p: "parseFloat_string ''13.6abc'' = JFin (136 / 10)"
    by (simp add: parse_defs)
  show ?thesis
    by (simp add: p isValidGPSData_def coordinate_def isNaN_def)
qed


section \<open>Properties of the service\<close>

subsection \<open>Helper facts\<close>

lemma notify_loop:
  "forEach cbs
     (\<lambda>callback. tryCatch (ws_call callback v)
        (\<lambda>error s. (Inr (), ws_log (ConsoleError label) s))) st =
   (Inr (), st\<lparr>ws_world := run_all cbs v (ws_world st),
               ws_console := ws_console st @ caught label (outcomes cbs v (ws_world st))\<rparr>)"
proof (induction cbs arbitrary: st)
  case Nil
  show ?case by (simp add: run_all_def caught_def)
next
  case (Cons cb cbs)
  let ?f = "\<lambda>callback. tryCatch (ws_call callback v)
              (\<lambda>error s. (Inr (), ws_log (ConsoleError label) s))"
  obtain r w' where cb: "cb v (ws_world st) = (r, w')" by (cases "cb v (ws_world st)")
  let ?st1 = "st\<lparr>ws_world := w',
                  ws_console := ws_console st @ (if isl r then [ConsoleError label] else [])\<rparr>"
  have one: "?f cb st = (Inr (), ?st1)"
    using cb by (cases r) (simp_all add: tryCatch_def ws_call_def ws_log_def)
  have "forEach (cb # cbs) ?f st = forEach cbs ?f ?st1"
    by (simp only: forEach.simps one prod.case sum.case)
  also have "\<dots> = (Inr (), ?st1\<lparr>ws_world := run_all cbs v (ws_world ?st1),
               ws_console := ws_console ?st1 @ caught label (outcomes cbs v (ws_world ?st1))\<rparr>)"
    by (rule Cons.IH)
  also have "\<dots> = (Inr (), st\<lparr>ws_world := run_all (cb # cbs) v (ws_world st),
               ws_console := ws_console st @
                 caught label (outcomes (cb # cbs) v (ws_world st))\<rparr>)"
    using cb by (simp add: run_all_def caught_def)
  finally show ?case .
qed

lemma run_all_append:
  "run_all (before @ cb # after) v w = run_all after v (snd (cb v (run_all before v w)))"
  by (simp add: run_all_def)

lemma length_outcomes: "length (outcomes cbs v w) = length cbs"
  by (induction cbs arbitrary: w) simp_all

lemmas service_defs = listening_def WebSocketGPSService_def local_config_def connect_def
  setupEventHandlers_def initializeSimulationData_def ws_log_def ws_transport_def
  onError_def onConnectionChange_def onGPSUpdate_def event_names_def andThen_def

lemma valid_point:
  assumes "isValidGPSData data"
  shows "\<exists>d la lo. data = Some d \<and>
           parseFloat (raw_lat d) = JFin la \<and> parseFloat (raw_lon d) = JFin lo \<and>
           - 90 \<le> la \<and> la \<le> 90 \<and> - 180 \<le> lo \<and> lo \<le> 180"
proof (cases data)
  case None
  then show ?thesis using assms by (simp add: isValidGPSData_def)
next
  case (Some d)
  then show ?thesis using assms by (simp add: valid_reading parseFloat_reading)
qed

lemma missing_previous_dropped:
  assumes "msg_p m = None"
  shows "ws_processGPSData now (Some m) src st =
           (Inr (), ws_log (ConsoleWarn ''Invalid GPS data received:'') st)"
  using assms by (simp add: ws_processGPSData_def isValidGPSData_def)

text \<open>A payload that is \<open>null\<close> or \<open>undefined\<close> makes \<open>processGPSData\<close> throw.\<close>

lemma null_payload_throws:
  "ws_processGPSData now None src st = (Inl (Thrown ''TypeError''), st)"
  by (simp add: ws_processGPSData_def)

lemma listening_fields:
  "ws_world listening = []"
  "socket listening = Some 0"
  "socketConnected listening = False"
  "nextSocketId listening = 1"
  "isConnected listening = False"
  "config listening = local_config"
  "onGPSUpdateCallbacks listening = [\<lambda>u w. (Inr (), w @ [''update''])]"
  "onErrorCallbacks listening = [\<lambda>msg w. (Inr (), w @ [''error''])]"
  "onConnectionChangeCallbacks listening =
     [\<lambda>c w. (Inl (Thrown ''boom''), w @ [''first'']), \<lambda>c w. (Inr (), w @ [''second''])]"
  by (simp_all add: service_defs Let_def)

lemma wire_point_valid: "- 90 \<le> la \<Longrightarrow> la \<le> 90 \<Longrightarrow> - 180 \<le> lo \<Longrightarrow> lo \<le> 180 \<Longrightarrow>
    isValidGPSData (Some (wire_point la lo))"
  by (simp add: isValidGPSData_def wire_point_def coordinate_def isNaN_def)

text \<open>A message with a valid \<open>c\<close> and no \<open>p\<close> is dropped as well.\<close>

lemma message_without_p_dropped:
  "isValidGPSData (msg_c message_without_p) \<and>
   ws_processGPSData 1000500 (Some message_without_p) ''websocket-broadcast'' listening =
     (Inr (), ws_log (ConsoleWarn ''Invalid GPS data received:'') listening)"
  by (simp add: message_without_p_def wire_point_valid missing_previous_dropped)

lemma requestGPSData_fields:
  "connectionAttempts (requestGPSData st) = connectionAttempts st"
  "isConnected (requestGPSData st) = isConnected st"
  "socket (requestGPSData st) = socket st"
  "socketConnected (requestGPSData st) = socketConnected st"
  "nextSocketId (requestGPSData st) = nextSocketId st"
  "config (requestGPSData st) = config st"
  "onConnectionChangeCallbacks (requestGPSData st) = onConnectionChangeCallbacks st"
  "ws_world (requestGPSData st) = ws_world st"
  by (simp_all add: requestGPSData_def ws_transport_def ws_log_def split: option.splits)

lemma on_connect_eq:
  assumes "socket st = Some k"
  shows "on_connect st =
     (Inr (), requestGPSData
        (st\<lparr>isConnected := True, connectionAttempts := 0,
            ws_world := run_all (onConnectionChangeCallbacks st) True (ws_world st),
            ws_console := ws_console st @
              ConsoleLog ''WebSocket connected:'' #
              caught ''Error in connection change callback:''
                (outcomes (onConnectionChangeCallbacks st) True (ws_world st))\<rparr>))"
proof -
  let ?st3 = "(ws_log (ConsoleLog ''WebSocket connected:'') st)
                \<lparr>isConnected := True, connectionAttempts := 0\<rparr>"
  have n: "notifyConnectionChange True ?st3 =
     (Inr (), ?st3\<lparr>ws_world := run_all (onConnectionChangeCallbacks ?st3) True (ws_world ?st3),
                 ws_console := ws_console ?st3 @
                   caught ''Error in connection change callback:''
                     (outcomes (onConnectionChangeCallbacks ?st3) True (ws_world ?st3))\<rparr>)"
    unfolding notifyConnectionChange_def by (rule notify_loop)
  have oc: "on_connect st = andThen (notifyConnectionChange True)
                (\<lambda>u s. (Inr (), requestGPSData s)) ?st3"
    using assms by (simp add: on_connect_def Let_def)
  show ?thesis unfolding oc andThen_def n by (simp add: ws_log_def)
qed

lemma on_disconnect_eq:
  "on_disconnect reason st =
     (Inr (), st\<lparr>isConnected := False,
                 ws_world := run_all (onConnectionChangeCallbacks st) False (ws_world st),
                 ws_console := ws_console st @
                   ConsoleLog ''WebSocket disconnected:'' #
                   caught ''Error in connection change callback:''
                     (outcomes (onConnectionChangeCallbacks st) False (ws_world st)),
                 transport := transport st @
                   (if reason = ''io server disconnect'' then [SetTimeoutConnect 1000] else [])\<rparr>)"
proof -
  let ?st2 = "(ws_log (ConsoleLog ''WebSocket disconnected:'') st)\<lparr>isConnected := False\<rparr>"
  have n: "notifyConnectionChange False ?st2 =
     (Inr (), ?st2\<lparr>ws_world := run_all (onConnectionChangeCallbacks ?st2) False (ws_world ?st2),
                 ws_console := ws_console ?st2 @
                   caught ''Error in connection change callback:''
                     (outcomes (onConnectionChangeCallbacks ?st2) False (ws_world ?st2))\<rparr>)"
    unfolding notifyConnectionChange_def by (rule notify_loop)
  have od: "on_disconnect reason st = andThen (notifyConnectionChange False)
           (\<lambda>u s. (Inr (), if reason = ''io server disconnect''
                             then ws_transport (SetTimeoutConnect 1000) s else s)) ?st2"
    by (simp add: on_disconnect_def Let_def)
  show ?thesis unfolding od andThen_def n by (simp add: ws_log_def ws_transport_def)
qed

lemma connect_live:
  assumes "socket st = Some old" and "socketConnected st"
  shows "connect st =
     (Inr (), st\<lparr>socket := Some (nextSocketId st),
                 nextSocketId := Suc (nextSocketId st),
                 socketConnected := False,
                 isConnected := False,
                 ws_world := run_all (onConnectionChangeCallbacks st) False (ws_world st),
                 ws_console := ws_console st @
                   ConsoleLog ''WebSocket disconnected:'' #
                   caught ''Error in connection change callback:''
                     (outcomes (onConnectionChangeCallbacks st) False (ws_world st)) @
                   [ConsoleLog ''Attempting WebSocket connection to:''],
                 transport := transport st @
                   SocketDisconnect old # IoConnect (nextSocketId st) (serverUrl (config st)) #
                   map (SocketOn (nextSocketId st)) event_names\<rparr>)"
proof -
  let ?s1 = "(ws_transport (SocketDisconnect old) st)\<lparr>socketConnected := False\<rparr>"
  have sd: "socket_disconnect old st = on_disconnect ''io client disconnect'' ?s1"
    using assms(2) by (simp add: socket_disconnect_def Let_def ws_transport_def)
  show ?thesis
    unfolding connect_def andThen_def
    using assms(1)
    by (simp add: sd on_disconnect_eq Let_def setupEventHandlers_def ws_transport_def ws_log_def)
qed

lemma connect_idle:
  assumes "socket st = None \<or> \<not> socketConnected st"
  shows "connect st =
     (Inr (), st\<lparr>socket := Some (nextSocketId st),
                 nextSocketId := Suc (nextSocketId st),
                 socketConnected := False,
                 ws_console := ws_console st @
                   [ConsoleLog ''Attempting WebSocket connection to:''],
                 transport := transport st @
                   (case socket st of Some old \<Rightarrow> [SocketDisconnect old] | None \<Rightarrow> []) @
                   IoConnect (nextSocketId st) (serverUrl (config st)) #
                   map (SocketOn (nextSocketId st)) event_names\<rparr>)"
proof (cases "socket st")
  case None
  then show ?thesis
    unfolding connect_def andThen_def
    by (simp add: Let_def setupEventHandlers_def ws_transport_def ws_log_def)
next
  case (Some old)
  then have nc: "\<not> socketConnected st" using assms by simp
  have sd: "socket_disconnect old st = (Inr (), ws_transport (SocketDisconnect old) st)"
    using nc by (simp add: socket_disconnect_def Let_def ws_transport_def)
  show ?thesis
    unfolding connect_def andThen_def
    using Some
    by (simp add: sd Let_def setupEventHandlers_def ws_transport_def ws_log_def)
qed

lemma connected_service_fields:
  "isConnected connected_service"
  "socketConnected connected_service"
  "socket connected_service = Some 0"
  "nextSocketId connected_service = 1"
  "serverUrl (config connected_service) = ''ws://localhost:3000''"
  "ws_world connected_service = [''first'', ''second'']"
  "onConnectionChangeCallbacks connected_service =
     [\<lambda>c w. (Inl (Thrown ''boom''), w @ [''first'']), \<lambda>c w. (Inr (), w @ [''second''])]"
proof -
  have s: "socket (listening\<lparr>socketConnected := True\<rparr>) = Some 0"
    by (simp add: listening_fields)
  note e = on_connect_eq[OF s]
  show "isConnected connected_service"
    unfolding connected_service_def socket_connects_def e
    by (simp add: requestGPSData_fields)
  show "socketConnected connected_service"
    unfolding connected_service_def socket_connects_def e
    by (simp add: requestGPSData_fields)
  show "socket connected_service = Some 0"
    unfolding connected_service_def socket_connects_def e
    by (simp add: requestGPSData_fields listening_fields)
  show "nextSocketId connected_service = 1"
    unfolding connected_service_def socket_connects_def e
    by (simp add: requestGPSData_fields listening_fields)
  show "serverUrl (config connected_service) = ''ws://localhost:3000''"
    unfolding connected_service_def socket_connects_def e
    by (simp add: requestGPSData_fields listening_fields local_config_def)
  show "ws_world connected_service = [''first'', ''second'']"
    unfolding connected_service_def socket_connects_def e
    by (simp add: requestGPSData_fields listening_fields run_all_def)
  show "onConnectionChangeCallbacks connected_service =
     [\<lambda>c w. (Inl (Thrown ''boom''), w @ [''first'']), \<lambda>c w. (Inr (), w @ [''second''])]"
    unfolding connected_service_def socket_connects_def e
    by (simp add: requestGPSData_fields listening_fields)
qed

subsection \<open>Notification\<close>

text \<open>
  C10. Each of the three notifications returns normally whatever its callbacks do. It
  leaves the service as it was except for the subscribers' state and the console: the
  subscribers' state is the one left by running every registered callback in
  registration order, each on the state left by the one before it whether or not that one
  threw, and the console gains one error line for each callback that threw. Every
  callback has an outcome, and the callbacks registered after any one callback run on
  the state that callback left.
\<close>

theorem notify_catches:
  "notifyGPSUpdate data st =
     (Inr (), st\<lparr>ws_world := run_all (onGPSUpdateCallbacks st) data (ws_world st),
                 ws_console := ws_console st @
                   caught ''Error in GPS update callback:''
                     (outcomes (onGPSUpdateCallbacks st) data (ws_world st))\<rparr>) \<and>
   notifyConnectionChange conn st =
     (Inr (), st\<lparr>ws_world := run_all (onConnectionChangeCallbacks st) conn (ws_world st),
                 ws_console := ws_console st @
                   caught ''Error in connection change callback:''
                     (outcomes (onConnectionChangeCallbacks st) conn (ws_world st))\<rparr>) \<and>
   notifyError err st =
     (Inr (), st\<lparr>ws_world := run_all (onErrorCallbacks st) err (ws_world st),
                 ws_console := ws_console st @
                   caught ''Error in error callback:''
                     (outcomes (onErrorCallbacks st) err (ws_world st))\<rparr>) \<and>
   length (outcomes cbs v w) = length cbs \<and>
   run_all (before @ cb # after) v w = run_all after v (snd (cb v (run_all before v w)))"
  unfolding notifyGPSUpdate_def notifyConnectionChange_def notifyError_def
  by (simp only: notify_loop length_outcomes run_all_append simp_thms)

text \<open>
  The service with a first connection subscriber that throws and a second that does not:
  both have run, in that order, and one error line is written.
\<close>

theorem notify_catches_witness:
  "ws_world (snd (notifyConnectionChange True listening)) = [''first'', ''second''] \<and>
   fst (notifyConnectionChange True listening) = Inr () \<and>
   ws_console (snd (notifyConnectionChange True listening)) =
     ws_console listening @ [ConsoleError ''Error in connection change callback:'']"
proof -
  have cbs: "onConnectionChangeCallbacks listening =
               [\<lambda>c w. (Inl (Thrown ''boom''), w @ [''first'']),
                \<lambda>c w. (Inr (), w @ [''second''])]"
    by (simp add: listening_fields)
  have w0: "ws_world listening = []"
    by (simp add: listening_fields)
  show ?thesis
    using notify_catches[THEN conjunct2, THEN conjunct1, of True listening]
    by (simp add: cbs w0 run_all_def caught_def)
qed

subsection \<open>Inbound messages\<close>

text \<open>
  C3, as the code has it. For a payload that is an object: when its \<open>c\<close> is missing or
  malformed the message is dropped and nothing is thrown, one warning is written to the
  console, no subscriber of any kind is invoked, and the cached points stay; when its
  \<open>c\<close> and \<open>p\<close> are both valid it is mapped to an update whose current and previous
  points are parsed from \<open>c\<close> and \<open>p\<close>, the current coordinates finite and in range,
  whose status is \<open>s\<close> or \<open>active\<close>, and the update is cached and delivered to every
  update subscriber in registration order.
\<close>

theorem inbound_message:
  "(\<not> isValidGPSData (msg_c m) \<longrightarrow>
      ws_processGPSData now (Some m) src st =
        (Inr (), st\<lparr>ws_console := ws_console st @ [ConsoleWarn ''Invalid GPS data received:'']\<rparr>)) \<and>
   (isValidGPSData (msg_c m) \<and> isValidGPSData (msg_p m) \<longrightarrow>
      (\<exists>c p la lo.
         msg_c m = Some c \<and> msg_p m = Some p \<and>
         p_lat (parsePoint now c) = JFin la \<and> p_lon (parsePoint now c) = JFin lo \<and>
         - 90 \<le> la \<and> la \<le> 90 \<and> - 180 \<le> lo \<and> lo \<le> 180 \<and>
         (let upd = \<lparr>lu_current = Some (parsePoint now c),
                     lu_previous = Some (parsePoint (now - 5000) p),
                     lu_status = (case msg_s m of
                                    None \<Rightarrow> ''active''
                                  | Some str \<Rightarrow> if str = [] then ''active'' else str),
                     lu_source = src, lu_timestamp = now\<rparr>
          in ws_processGPSData now (Some m) src st =
               (Inr (), st\<lparr>ws_currentGPS := Some (parsePoint now c),
                           ws_previousGPS := Some (parsePoint (now - 5000) p),
                           ws_world := run_all (onGPSUpdateCallbacks st) upd (ws_world st),
                           ws_console := ws_console st @
                             caught ''Error in GPS update callback:''
                               (outcomes (onGPSUpdateCallbacks st) upd (ws_world st))\<rparr>))))"
proof (intro conjI impI)
  assume "\<not> isValidGPSData (msg_c m)"
  then show "ws_processGPSData now (Some m) src st =
        (Inr (), st\<lparr>ws_console := ws_console st @ [ConsoleWarn ''Invalid GPS data received:'']\<rparr>)"
    by (simp add: ws_processGPSData_def ws_log_def)
next
  assume v: "isValidGPSData (msg_c m) \<and> isValidGPSData (msg_p m)"
  from valid_point[of "msg_c m"] v obtain c la lo where
    c: "msg_c m = Some c" and la: "parseFloat (raw_lat c) = JFin la"
    and lo: "parseFloat (raw_lon c) = JFin lo"
    and rng: "- 90 \<le> la" "la \<le> 90" "- 180 \<le> lo" "lo \<le> 180"
    by blast
  from valid_point[of "msg_p m"] v obtain p where p: "msg_p m = Some p" by blast
  let ?upd = "\<lparr>lu_current = Some (parsePoint now c),
                     lu_previous = Some (parsePoint (now - 5000) p),
                     lu_status = (case msg_s m of
                                    None \<Rightarrow> ''active''
                                  | Some str \<Rightarrow> if str = [] then ''active'' else str),
                     lu_source = src, lu_timestamp = now\<rparr>"
  let ?st3 = "st\<lparr>ws_previousGPS := ws_currentGPS st, ws_currentGPS := Some (parsePoint now c),
                  ws_previousGPS := Some (parsePoint (now - 5000) p)\<rparr>"
  have "ws_processGPSData now (Some m) src st = notifyGPSUpdate ?upd ?st3"
    using v c p by (simp add: ws_processGPSData_def Let_def)
  also have "\<dots> = (Inr (), ?st3\<lparr>ws_world := run_all (onGPSUpdateCallbacks ?st3) ?upd (ws_world ?st3),
                           ws_console := ws_console ?st3 @
                             caught ''Error in GPS update callback:''
                               (outcomes (onGPSUpdateCallbacks ?st3) ?upd (ws_world ?st3))\<rparr>)"
    unfolding notifyGPSUpdate_def by (rule notify_loop)
  also have "\<dots> = (Inr (), st\<lparr>ws_currentGPS := Some (parsePoint now c),
                           ws_previousGPS := Some (parsePoint (now - 5000) p),
                           ws_world := run_all (onGPSUpdateCallbacks st) ?upd (ws_world st),
                           ws_console := ws_console st @
                             caught ''Error in GPS update callback:''
                               (outcomes (onGPSUpdateCallbacks st) ?upd (ws_world st))\<rparr>)"
    by simp
  finally have run: "ws_processGPSData now (Some m) src st =
       (Inr (), st\<lparr>ws_currentGPS := Some (parsePoint now c),
                           ws_previousGPS := Some (parsePoint (now - 5000) p),
                           ws_world := run_all (onGPSUpdateCallbacks st) ?upd (ws_world st),
                           ws_console := ws_console st @
                             caught ''Error in GPS update callback:''
                               (outcomes (onGPSUpdateCallbacks st) ?upd (ws_world st))\<rparr>)" .
  have pl: "p_lat (parsePoint now c) = JFin la" "p_lon (parsePoint now c) = JFin lo"
    using la lo by (simp_all add: parsePoint_def)
  show "\<exists>c p la lo.
         msg_c m = Some c \<and> msg_p m = Some p \<and>
         p_lat (parsePoint now c) = JFin la \<and> p_lon (parsePoint now c) = JFin lo \<and>
         - 90 \<le> la \<and> la \<le> 90 \<and> - 180 \<le> lo \<and> lo \<le> 180 \<and>
         (let upd = \<lparr>lu_current = Some (parsePoint now c),
                     lu_previous = Some (parsePoint (now - 5000) p),
                     lu_status = (case msg_s m of
                                    None \<Rightarrow> ''active''
                                  | Some str \<Rightarrow> if str = [] then ''active'' else str),
                     lu_source = src, lu_timestamp = now\<rparr>
          in ws_processGPSData now (Some m) src st =
               (Inr (), st\<lparr>ws_currentGPS := Some (parsePoint now c),
                           ws_previousGPS := Some (parsePoint (now - 5000) p),
                           ws_world := run_all (onGPSUpdateCallbacks st) upd (ws_world st),
                           ws_console := ws_console st @
                             caught ''Error in GPS update callback:''
                               (outcomes (onGPSUpdateCallbacks st) upd (ws_world st))\<rparr>))"
    unfolding Let_def using c p pl rng run by blast
qed

text \<open>
  A message without \<open>c\<close> and a complete message, on the service with one subscriber of
  each kind: the first reaches no subscriber, the second reaches the update subscriber.
\<close>

theorem inbound_message_witness:
  "\<not> isValidGPSData (msg_c message_without_c) \<and>
   ws_world (snd (ws_processGPSData 1000500 (Some message_without_c)
                    ''websocket-broadcast'' listening)) = [] \<and>
   isValidGPSData (msg_c message_complete) \<and>
   isValidGPSData (msg_p message_complete) \<and>
   fst (ws_processGPSData 1000500 (Some message_complete) ''websocket-broadcast'' listening) =
     Inr () \<and>
   ws_world (snd (ws_processGPSData 1000500 (Some message_complete)
                    ''websocket-broadcast'' listening)) = [''update''] \<and>
   ws_currentGPS (snd (ws_processGPSData 1000500 (Some message_complete)
                         ''websocket-broadcast'' listening)) =
     Some \<lparr>p_lat = JFin (136 / 10), p_lon = JFin (1008 / 10),
           p_timestamp = WireStamp (JStr ''2024-01-01T00:00:00.000Z'')\<rparr>"
proof -
  have i: "\<not> isValidGPSData (msg_c message_without_c)"
    by (simp add: message_without_c_def isValidGPSData_def)
  have vc: "isValidGPSData (msg_c message_complete)"
    unfolding message_complete_def by (simp add: wire_point_valid)
  have vp: "isValidGPSData (msg_p message_complete)"
    unfolding message_complete_def by (simp add: wire_point_valid)
  note a = inbound_message[of message_without_c 1000500 "''websocket-broadcast''"
      listening, THEN conjunct1, rule_format, OF i]
  note b = inbound_message[of message_complete 1000500 "''websocket-broadcast''"
      listening, THEN conjunct2, rule_format, OF conjI[OF vc vp]]
  have c: "msg_c message_complete = Some (wire_point (136 / 10) (1008 / 10))"
          "msg_p message_complete = Some (wire_point (135 / 10) (1007 / 10))"
    by (simp_all add: message_complete_def)
  have w1: "ws_world (snd (ws_processGPSData 1000500 (Some message_without_c)
                    ''websocket-broadcast'' listening)) = []"
    using a by (simp add: listening_fields)
  have w2: "fst (ws_processGPSData 1000500 (Some message_complete) ''websocket-broadcast'' listening) =
     Inr () \<and>
   ws_world (snd (ws_processGPSData 1000500 (Some message_complete)
                    ''websocket-broadcast'' listening)) = [''update''] \<and>
   ws_currentGPS (snd (ws_processGPSData 1000500 (Some message_complete)
                         ''websocket-broadcast'' listening)) =
     Some \<lparr>p_lat = JFin (136 / 10), p_lon = JFin (1008 / 10),
           p_timestamp = WireStamp (JStr ''2024-01-01T00:00:00.000Z'')\<rparr>"
    using b unfolding Let_def c
    by (auto simp add: listening_fields run_all_def parsePoint_def wire_point_def)
  show ?thesis using i vc vp w1 w2 by blast
qed

text \<open>
  The message without \<open>c\<close> is dropped with a console warning only: the registered error
  subscriber is not invoked.
\<close>

theorem missing_c_counterexample:
  "msg_c message_without_c = None \<and>
   onErrorCallbacks listening = [\<lambda>msg w. (Inr (), w @ [''error''])] \<and>
   ws_world listening = [] \<and>
   ws_processGPSData 1000500 (Some message_without_c) ''websocket-broadcast'' listening =
     (Inr (), listening\<lparr>ws_console := ws_console listening @
                                       [ConsoleWarn ''Invalid GPS data received:'']\<rparr>) \<and>
   ws_world (snd (ws_processGPSData 1000500 (Some message_without_c)
                    ''websocket-broadcast'' listening)) = []"
  by (simp add: listening_fields message_without_c_def ws_processGPSData_def
      isValidGPSData_def ws_log_def)

subsection \<open>Connecting\<close>

text \<open>
  C4, as the code has it. \<open>connect()\<close> always establishes a new transport and returns
  normally: it disconnects the socket it holds, if any, creates a new socket, not yet
  connected, registers the handlers on it and holds it. When the socket it held was
  connected, the disconnection runs the service's own \<open>disconnect\<close> handler before
  \<open>connect()\<close> goes on: \<open>isConnected\<close> becomes false and the connection subscribers are
  notified of the loss. In either case \<open>connectionAttempts\<close> keeps its value. The handler
  of a successful connection sets \<open>connectionAttempts\<close> to zero and \<open>isConnected\<close> to
  true.
\<close>

theorem connect_replaces:
  "(socket st = Some old \<and> socketConnected st \<longrightarrow>
      connect st =
        (Inr (), st\<lparr>socket := Some (nextSocketId st),
                    nextSocketId := Suc (nextSocketId st),
                    socketConnected := False,
                    isConnected := False,
                    ws_world := run_all (onConnectionChangeCallbacks st) False (ws_world st),
                    ws_console := ws_console st @
                      ConsoleLog ''WebSocket disconnected:'' #
                      caught ''Error in connection change callback:''
                        (outcomes (onConnectionChangeCallbacks st) False (ws_world st)) @
                      [ConsoleLog ''Attempting WebSocket connection to:''],
                    transport := transport st @
                      SocketDisconnect old #
                      IoConnect (nextSocketId st) (serverUrl (config st)) #
                      map (SocketOn (nextSocketId st)) event_names\<rparr>)) \<and>
   (socket st = None \<or> \<not> socketConnected st \<longrightarrow>
      connect st =
        (Inr (), st\<lparr>socket := Some (nextSocketId st),
                    nextSocketId := Suc (nextSocketId st),
                    socketConnected := False,
                    ws_console := ws_console st @
                      [ConsoleLog ''Attempting WebSocket connection to:''],
                    transport := transport st @
                      (case socket st of Some held \<Rightarrow> [SocketDisconnect held] | None \<Rightarrow> []) @
                      IoConnect (nextSocketId st) (serverUrl (config st)) #
                      map (SocketOn (nextSocketId st)) event_names\<rparr>)) \<and>
   (socket st \<noteq> None \<longrightarrow>
      fst (on_connect st) = Inr () \<and>
      connectionAttempts (snd (on_connect st)) = 0 \<and>
      isConnected (snd (on_connect st)))"
proof (intro conjI impI)
  assume "socket st = Some old \<and> socketConnected st"
  then show "connect st =
        (Inr (), st\<lparr>socket := Some (nextSocketId st),
                    nextSocketId := Suc (nextSocketId st),
                    socketConnected := False,
                    isConnected := False,
                    ws_world := run_all (onConnectionChangeCallbacks st) False (ws_world st),
                    ws_console := ws_console st @
                      ConsoleLog ''WebSocket disconnected:'' #
                      caught ''Error in connection change callback:''
                        (outcomes (onConnectionChangeCallbacks st) False (ws_world st)) @
                      [ConsoleLog ''Attempting WebSocket connection to:''],
                    transport := transport st @
                      SocketDisconnect old #
                      IoConnect (nextSocketId st) (serverUrl (config st)) #
                      map (SocketOn (nextSocketId st)) event_names\<rparr>)"
    by (simp add: connect_live)
next
  assume "socket st = None \<or> \<not> socketConnected st"
  then show "connect st =
        (Inr (), st\<lparr>socket := Some (nextSocketId st),
                    nextSocketId := Suc (nextSocketId st),
                    socketConnected := False,
                    ws_console := ws_console st @
                      [ConsoleLog ''Attempting WebSocket connection to:''],
                    transport := transport st @
                      (case socket st of Some held \<Rightarrow> [SocketDisconnect held] | None \<Rightarrow> []) @
                      IoConnect (nextSocketId st) (serverUrl (config st)) #
                      map (SocketOn (nextSocketId st)) event_names\<rparr>)"
    by (rule connect_idle)
next
  assume "socket st \<noteq> None"
  then obtain k where k: "socket st = Some k" by auto
  note e = on_connect_eq[OF k]
  show "fst (on_connect st) = Inr ()" unfolding e by simp
  show "connectionAttempts (snd (on_connect st)) = 0"
    unfolding e by (simp add: requestGPSData_fields)
  show "isConnected (snd (on_connect st))"
    unfolding e by (simp add: requestGPSData_fields)
qed

text \<open>
  The connected service with three failed attempts counted: \<open>connect()\<close> replaces socket
  0 by socket 1, leaves it marked not connected and keeps the count; a successful
  connection resets the count. On the service whose socket has not connected yet,
  \<open>connect()\<close> leaves the subscribers alone.
\<close>

theorem connect_replaces_witness:
  "socket (connected_service\<lparr>connectionAttempts := 3\<rparr>) = Some 0 \<and>
   socketConnected (connected_service\<lparr>connectionAttempts := 3\<rparr>) \<and>
   socket (snd (connect (connected_service\<lparr>connectionAttempts := 3\<rparr>))) = Some 1 \<and>
   \<not> isConnected (snd (connect (connected_service\<lparr>connectionAttempts := 3\<rparr>))) \<and>
   connectionAttempts (snd (connect (connected_service\<lparr>connectionAttempts := 3\<rparr>))) = 3 \<and>
   connectionAttempts (snd (on_connect (connected_service\<lparr>connectionAttempts := 3\<rparr>))) = 0 \<and>
   isConnected (snd (on_connect (connected_service\<lparr>connectionAttempts := 3\<rparr>))) \<and>
   \<not> socketConnected listening \<and>
   socket (snd (connect listening)) = Some 1 \<and>
   ws_world (snd (connect listening)) = ws_world listening"
proof -
  let ?cs = "connected_service\<lparr>connectionAttempts := 3\<rparr>"
  have s: "socket ?cs = Some 0" "socketConnected ?cs" "socket ?cs \<noteq> None"
    by (simp_all add: connected_service_fields)
  have l: "socket listening = None \<or> \<not> socketConnected listening"
    by (simp add: listening_fields)
  note a = connect_replaces[of ?cs 0, THEN conjunct1, rule_format, OF conjI[OF s(1) s(2)]]
  note b = connect_replaces[of listening, THEN conjunct2, THEN conjunct1, rule_format, OF l]
  note c = connect_replaces[of ?cs, THEN conjunct2, THEN conjunct2, rule_format, OF s(3)]
  show ?thesis
    using c s unfolding a b
    by (simp add: connected_service_fields listening_fields)
qed

text \<open>
  \<open>connect()\<close> on the connected service is not a no-op: the established socket is
  disconnected, the service is no longer connected, its subscribers have been told so,
  and a new socket takes the place of the old.
\<close>

theorem connect_twice_counterexample:
  "isConnected connected_service \<and>
   socketConnected connected_service \<and>
   socket connected_service = Some 0 \<and>
   fst (connect connected_service) = Inr () \<and>
   socket (snd (connect connected_service)) = Some 1 \<and>
   \<not> isConnected (snd (connect connected_service)) \<and>
   ws_world (snd (connect connected_service)) =
     ws_world connected_service @ [''first'', ''second''] \<and>
   transport (snd (connect connected_service)) =
     transport connected_service @
       SocketDisconnect 0 # IoConnect 1 ''ws://localhost:3000'' # map (SocketOn 1) event_names \<and>
   snd (connect connected_service) \<noteq> connected_service"
proof -
  have s: "socket connected_service = Some 0" "socketConnected connected_service"
    by (simp_all add: connected_service_fields)
  note c = connect_live[OF s]
  have ne: "snd (connect connected_service) \<noteq> connected_service"
  proof
    assume "snd (connect connected_service) = connected_service"
    then have "socket (snd (connect connected_service)) = socket connected_service" by simp
    then show False unfolding c by (simp add: connected_service_fields)
  qed
  show ?thesis
    using ne unfolding c
    by (simp add: connected_service_fields run_all_def)
qed


section \<open>Properties of the tracker\<close>


lemma forEach_preserves:
  assumes "\<And>x st. x \<in> set xs \<Longrightarrow> g (snd (f x st)) = g st"
  shows "g (snd (forEach xs f st)) = g st"
  using assms
proof (induction xs arbitrary: st)
  case Nil
  then show ?case by simp
next
  case (Cons x xs)
  obtain r st' where fx: "f x st = (r, st')" by (cases "f x st")
  have g1: "g st' = g st" using Cons.prems[of x st] fx by simp
  show ?case
  proof (cases r)
    case (Inl e)
    then show ?thesis using fx g1 by simp
  next
    case (Inr u)
    have "g (snd (forEach xs f st')) = g st'"
      by (rule Cons.IH) (simp add: Cons.prems)
    then show ?thesis using fx Inr g1 by simp
  qed
qed

lemma tt_call_history:
  "locationHistory (snd (tt_call cb v st)) = locationHistory st"
  "maxHistoryLength (snd (tt_call cb v st)) = maxHistoryLength st"
  by (simp_all add: tt_call_def split: prod.splits)

lemma tryCatch_swallow_snd:
  "snd (tryCatch body (\<lambda>e s. (Inr (), s)) st) = snd (body st)"
  by (simp add: tryCatch_def split: prod.splits sum.splits)

lemma checkStatusChange_history:
  "locationHistory (snd (checkStatusChange now st)) = locationHistory st"
  "maxHistoryLength (snd (checkStatusChange now st)) = maxHistoryLength st"
proof -
  let ?f = "\<lambda>cb. tryCatch
                 (\<lambda>s. tt_call cb
                        \<lparr>oldStatus = lastNotifiedStatus s, newStatus = currentStatus s,
                         sc_location = currentLocation s, sc_timestamp = now\<rparr> s)
                 (\<lambda>e s. (Inr (), s))"
  have h: "locationHistory (snd (forEach (statusChangeCallbacks st) ?f st)) = locationHistory st"
    by (rule forEach_preserves) (simp add: tryCatch_swallow_snd tt_call_history)
  have m: "maxHistoryLength (snd (forEach (statusChangeCallbacks st) ?f st)) = maxHistoryLength st"
    by (rule forEach_preserves) (simp add: tryCatch_swallow_snd tt_call_history)
  show "locationHistory (snd (checkStatusChange now st)) = locationHistory st"
    using h by (auto simp add: checkStatusChange_def andThen_def split: prod.splits sum.splits)
  show "maxHistoryLength (snd (checkStatusChange now st)) = maxHistoryLength st"
    using m by (auto simp add: checkStatusChange_def andThen_def split: prod.splits sum.splits)
qed

lemma updateStatus_history:
  "locationHistory (snd (updateStatus now st)) = locationHistory st"
  "maxHistoryLength (snd (updateStatus now st)) = maxHistoryLength st"
  by (simp_all add: updateStatus_def Let_def checkStatusChange_history)

lemma detectBuilding_loop_history:
  "locationHistory (snd (detectBuilding_loop bs la lo st)) = locationHistory st"
  "maxHistoryLength (snd (detectBuilding_loop bs la lo st)) = maxHistoryLength st"
  by (induction bs) (simp_all add: Let_def)

lemma detectMovement_history:
  "locationHistory (detectMovement now st) = locationHistory st"
  "maxHistoryLength (detectMovement now st) = maxHistoryLength st"
  by (simp_all add: detectMovement_def Let_def split: option.splits)

lemma addToHistory_history:
  "locationHistory (addToHistory loc st) =
     (if length (locationHistory st) < maxHistoryLength st
      then locationHistory st @ [loc] else tl (locationHistory st @ [loc]))"
  "maxHistoryLength (addToHistory loc st) = maxHistoryLength st"
  by (auto simp add: addToHistory_def Let_def)

lemma updatePosition_history:
  "locationHistory (snd (updatePosition la lo now st)) =
     (let loc = \<lparr>loc_lat = la, loc_lon = lo, loc_timestamp = now\<rparr>
      in if length (locationHistory st) < maxHistoryLength st
         then locationHistory st @ [loc] else tl (locationHistory st @ [loc]))"
  "maxHistoryLength (snd (updatePosition la lo now st)) = maxHistoryLength st"
proof -
  let ?loc = "\<lparr>loc_lat = la, loc_lon = lo, loc_timestamp = now\<rparr>"
  let ?st5 = "snd (detectBuilding la lo (detectMovement now
               (addToHistory ?loc (st\<lparr>lastLocation := currentLocation st,
                                      currentLocation := Some ?loc\<rparr>))))"
  have u: "updatePosition la lo now st =
      andThen (updateStatus now)
           (\<lambda>u s. (Inr (getTrackingInfo now (s\<lparr>tt_lastUpdateTime := now\<rparr>)), s\<lparr>tt_lastUpdateTime := now\<rparr>))
           ?st5"
    by (simp add: updatePosition_def Let_def)
  have s: "locationHistory (snd (updatePosition la lo now st)) = locationHistory ?st5
         \<and> maxHistoryLength (snd (updatePosition la lo now st)) = maxHistoryLength ?st5"
    using updateStatus_history[of now ?st5]
    unfolding u andThen_def by (auto split: prod.splits sum.splits)
  show "locationHistory (snd (updatePosition la lo now st)) =
     (let loc = ?loc
      in if length (locationHistory st) < maxHistoryLength st
         then locationHistory st @ [loc] else tl (locationHistory st @ [loc]))"
    using s by (simp add: detectBuilding_def detectBuilding_loop_history detectMovement_history
        addToHistory_history Let_def)
  show "maxHistoryLength (snd (updatePosition la lo now st)) = maxHistoryLength st"
    using s by (simp add: detectBuilding_def detectBuilding_loop_history detectMovement_history
        addToHistory_history)
qed


lemma tracker_step_inv:
  assumes "maxHistoryLength st = 10" and "length (locationHistory st) \<le> 10"
  shows "maxHistoryLength (tracker_step c st) = 10 \<and>
         length (locationHistory (tracker_step c st)) \<le> 10"
  using assms
  by (cases c) (auto simp add: updatePosition_history Let_def reset_def onStatusChange_def)

lemma tracker_run_inv:
  assumes "maxHistoryLength st = 10" and "length (locationHistory st) \<le> 10"
  shows "maxHistoryLength (tracker_run calls st) = 10 \<and>
         length (locationHistory (tracker_run calls st)) \<le> 10"
  using assms unfolding tracker_run_def
proof (induction calls arbitrary: st)
  case Nil
  then show ?case by simp
next
  case (Cons c calls)
  have "maxHistoryLength (tracker_step c st) = 10 \<and>
        length (locationHistory (tracker_step c st)) \<le> 10"
    using Cons.prems by (rule tracker_step_inv)
  then show ?case using Cons.IH[of "tracker_step c st"] by simp
qed


lemma drop_snoc_window:
  assumes "length h \<le> 10"
  shows "(if length h < 10 then h @ [x] else tl (h @ [x])) = drop (length h + 1 - 10) (h @ [x])"
proof (cases "length h < 10")
  case True
  then show ?thesis by simp
next
  case False
  then have "length h = 10" using assms by simp
  then show ?thesis by (cases h) simp_all
qed

lemma updates_window:
  assumes "maxHistoryLength st = 10" and "length (locationHistory st) \<le> 10"
  shows "locationHistory (tracker_run (map update_call ps) st) =
         drop (length (locationHistory st @ map arrival ps) - 10) (locationHistory st @ map arrival ps)"
  using assms
proof (induction ps arbitrary: st)
  case Nil
  then show ?case by (simp add: tracker_run_def)
next
  case (Cons a ps)
  obtain la lo t where a: "a = (la, lo, t)" by (cases a)
  let ?st' = "tracker_step (update_call a) st"
  let ?h = "locationHistory st"
  have inv: "maxHistoryLength ?st' = 10 \<and> length (locationHistory ?st') \<le> 10"
    using Cons.prems by (rule tracker_step_inv)
  have "locationHistory ?st' =
          (if length ?h < 10 then ?h @ [arrival a] else tl (?h @ [arrival a]))"
    using Cons.prems(1)
    by (simp add: a update_call_def arrival_def updatePosition_history Let_def)
  also have "\<dots> = drop (length ?h + 1 - 10) (?h @ [arrival a])"
    using Cons.prems(2) by (rule drop_snoc_window)
  finally have h': "locationHistory ?st' = drop (length ?h + 1 - 10) (?h @ [arrival a])" .
  have "locationHistory (tracker_run (map update_call (a # ps)) st) =
        locationHistory (tracker_run (map update_call ps) ?st')"
    by (simp add: tracker_run_def)
  also have "\<dots> = drop (length (locationHistory ?st' @ map arrival ps) - 10)
                      (locationHistory ?st' @ map arrival ps)"
    using inv by (intro Cons.IH) simp_all
  also have "\<dots> = drop (length (?h @ map arrival (a # ps)) - 10) (?h @ map arrival (a # ps))"
  proof (cases "length ?h < 10")
    case True
    then show ?thesis unfolding h' by simp
  next
    case False
    then have len: "length ?h = 10" using Cons.prems(2) by simp
    then obtain x xs where hx: "?h = x # xs" by (cases ?h) auto
    show ?thesis unfolding h' using len by (simp add: hx)
  qed
  finally show ?case .
qed

text \<open>
  C9. In every state a tracker reaches from its constructor the location history holds
  at most 10 entries; \<open>updatePosition\<close> appends the new location and, when the history
  was full, removes exactly its oldest entry; and after a sequence of updates the history
  is the last at-most-10 locations in arrival order.
\<close>

theorem history_window:
  "length (locationHistory (tracker_run calls (TramTracker now0 w))) \<le> 10 \<and>
   locationHistory (snd (updatePosition la lo now (tracker_run calls (TramTracker now0 w)))) =
     (let h = locationHistory (tracker_run calls (TramTracker now0 w));
          loc = \<lparr>loc_lat = la, loc_lon = lo, loc_timestamp = now\<rparr>
      in if length h < 10 then h @ [loc] else tl h @ [loc]) \<and>
   locationHistory (tracker_run (map update_call ps) (TramTracker now0 w)) =
     drop (length ps - 10) (map arrival ps)"
proof -
  let ?st = "tracker_run calls (TramTracker now0 w)"
  have init: "maxHistoryLength (TramTracker now0 w) = 10"
             "length (locationHistory (TramTracker now0 w)) \<le> 10"
             "locationHistory (TramTracker now0 w) = []"
    by (simp_all add: TramTracker_def)
  have inv: "maxHistoryLength ?st = 10 \<and> length (locationHistory ?st) \<le> 10"
    using init(1,2) by (rule tracker_run_inv)
  have step: "locationHistory (snd (updatePosition la lo now ?st)) =
     (let h = locationHistory ?st;
          loc = \<lparr>loc_lat = la, loc_lon = lo, loc_timestamp = now\<rparr>
      in if length h < 10 then h @ [loc] else tl h @ [loc])"
  proof (cases "locationHistory ?st")
    case Nil
    then show ?thesis using inv by (simp add: updatePosition_history Let_def)
  next
    case (Cons x xs)
    then show ?thesis using inv by (simp add: updatePosition_history Let_def)
  qed
  have win: "locationHistory (tracker_run (map update_call ps) (TramTracker now0 w)) =
     drop (length ps - 10) (map arrival ps)"
    using updates_window[OF init(1,2), of ps] by (simp add: init(3))
  show ?thesis using inv step win by blast
qed


section \<open>Properties of the reconciler\<close>

subsection \<open>Helper facts\<close>

lemma stopTramMovement_eq:
  "stopTramMovement st =
     st\<lparr>gsap := gsap st @ (case currentTween st of Some t \<Rightarrow> [TimelineKill t] | None \<Rightarrow> []),
        currentTween := None, isMoving := False\<rparr>"
  by (cases "currentTween st") (simp_all add: stopTramMovement_def)

lemma started_append: "started (xs @ ys) = started xs @ started ys"
  by (simp add: started_def)

lemma started_kill: "started (case c of Some t \<Rightarrow> [TimelineKill t] | None \<Rightarrow> []) = []"
  by (cases c) (simp_all add: started_def)

lemma stale_step:
  assumes "current u = Some cur" and "isGPSDataStale now (timestamp cur) defaultMaxAgeMs"
  shows "processGPSData now u st =
           (let warn = (lastStaleWarning st = 0 \<or> now - lastStaleWarning st > 30000)
            in st\<lparr>gsap := gsap st @ (case currentTween st of
                                        Some t \<Rightarrow> [TimelineKill t]
                                      | None \<Rightarrow> []),
                  currentTween := None, isMoving := False,
                  console := console st @ (if warn then [(now, stale_warning)] else []),
                  lastStaleWarning := (if warn then now else lastStaleWarning st)\<rparr>)"
  using assms
  by (simp add: processGPSData_def stopTramMovement_eq write_console_def Let_def stale_warning_def)

lemma staleWarnings_append: "staleWarnings (xs @ ys) = staleWarnings xs @ staleWarnings ys"
  by (simp add: staleWarnings_def)

lemma staleWarnings_Nil: "staleWarnings [] = []"
  by (simp add: staleWarnings_def)

lemma staleWarnings_one: "staleWarnings [(now, stale_warning)] = [now]"
  by (simp add: staleWarnings_def stale_warning_def)

lemma stale_run:
  assumes "all_stale us"
  shows "\<exists>ws. processAll us st =
           st\<lparr>gsap := gsap (processAll us st),
              currentTween := currentTween (processAll us st),
              isMoving := isMoving (processAll us st),
              console := console (processAll us st),
              lastStaleWarning := lastStaleWarning (processAll us st)\<rparr> \<and>
         gsap (processAll us st) =
           gsap st @ (if us = [] then []
                      else case currentTween st of Some t \<Rightarrow> [TimelineKill t] | None \<Rightarrow> []) \<and>
         (us \<noteq> [] \<longrightarrow> currentTween (processAll us st) = None \<and> \<not> isMoving (processAll us st)) \<and>
         staleWarnings (console (processAll us st)) = staleWarnings (console st) @ ws \<and>
         sorted_wrt (\<lambda>a b. b - a > 30000) ws \<and>
         (\<forall>t \<in> set ws. 0 < t \<and> (lastStaleWarning st \<noteq> 0 \<longrightarrow> t - lastStaleWarning st > 30000)) \<and>
         (ws \<noteq> [] \<longrightarrow> lastStaleWarning (processAll us st) = last ws) \<and>
         (ws = [] \<longrightarrow> lastStaleWarning (processAll us st) = lastStaleWarning st)"
  using assms
proof (induction us arbitrary: st)
  case Nil
  show ?case by (rule exI[of _ "[]"]) simp
next
  case (Cons a us)
  obtain now u where a: "a = (now, u)" by (cases a)
  from Cons.prems a obtain cur where cur: "current u = Some cur"
    and stale: "isGPSDataStale now (timestamp cur) defaultMaxAgeMs"
    and pos: "0 < now" and rest: "all_stale us"
    by (auto simp add: all_stale_def split: option.splits)
  let ?warn = "lastStaleWarning st = 0 \<or> now - lastStaleWarning st > 30000"
  let ?s1 = "processGPSData now u st"
  have s1: "?s1 = st\<lparr>gsap := gsap st @ (case currentTween st of
                                        Some t \<Rightarrow> [TimelineKill t]
                                      | None \<Rightarrow> []),
                  currentTween := None, isMoving := False,
                  console := console st @ (if ?warn then [(now, stale_warning)] else []),
                  lastStaleWarning := (if ?warn then now else lastStaleWarning st)\<rparr>"
    using stale_step[OF cur stale, of st] by (simp add: Let_def)
  from Cons.IH[OF rest, of ?s1] obtain ws where
    frame: "processAll us ?s1 =
           ?s1\<lparr>gsap := gsap (processAll us ?s1),
              currentTween := currentTween (processAll us ?s1),
              isMoving := isMoving (processAll us ?s1),
              console := console (processAll us ?s1),
              lastStaleWarning := lastStaleWarning (processAll us ?s1)\<rparr>"
    and st: "gsap (processAll us ?s1) =
           gsap ?s1 @ (if us = [] then []
                      else case currentTween ?s1 of Some t \<Rightarrow> [TimelineKill t] | None \<Rightarrow> [])"
    and tw: "us \<noteq> [] \<longrightarrow> currentTween (processAll us ?s1) = None \<and> \<not> isMoving (processAll us ?s1)"
    and cw: "staleWarnings (console (processAll us ?s1)) = staleWarnings (console ?s1) @ ws"
    and sw: "sorted_wrt (\<lambda>a b. b - a > 30000) ws"
    and bw: "\<forall>t \<in> set ws. 0 < t \<and> (lastStaleWarning ?s1 \<noteq> 0 \<longrightarrow> t - lastStaleWarning ?s1 > 30000)"
    and lw: "ws \<noteq> [] \<longrightarrow> lastStaleWarning (processAll us ?s1) = last ws"
    and ew: "ws = [] \<longrightarrow> lastStaleWarning (processAll us ?s1) = lastStaleWarning ?s1"
    by blast
  have pa: "processAll (a # us) st = processAll us ?s1" by (simp add: a)
  let ?ws' = "(if ?warn then [now] else []) @ ws"
  have f1: "processAll us ?s1 =
           st\<lparr>gsap := gsap (processAll us ?s1),
              currentTween := currentTween (processAll us ?s1),
              isMoving := isMoving (processAll us ?s1),
              console := console (processAll us ?s1),
              lastStaleWarning := lastStaleWarning (processAll us ?s1)\<rparr>"
    by (subst frame, subst s1) simp
  have c1: "currentTween ?s1 = None" by (subst s1) simp
  have g1: "gsap ?s1 = gsap st @ (case currentTween st of Some t \<Rightarrow> [TimelineKill t] | None \<Rightarrow> [])"
    by (subst s1) simp
  have f2: "gsap (processAll us ?s1) =
           gsap st @ (if a # us = [] then []
                      else case currentTween st of Some t \<Rightarrow> [TimelineKill t] | None \<Rightarrow> [])"
    unfolding st c1 g1 by simp
  have f3: "currentTween (processAll us ?s1) = None \<and> \<not> isMoving (processAll us ?s1)"
  proof (cases "us = []")
    case True
    then show ?thesis by (simp, subst s1, simp, subst s1, simp)
  next
    case False
    then show ?thesis using tw by simp
  qed
  have f4: "staleWarnings (console (processAll us ?s1)) = staleWarnings (console st) @ ?ws'"
    unfolding cw by (subst s1) (simp add: staleWarnings_append staleWarnings_one staleWarnings_Nil)
  have l1: "lastStaleWarning ?s1 = (if ?warn then now else lastStaleWarning st)"
    by (subst s1) simp
  have f5: "sorted_wrt (\<lambda>a b. b - a > 30000) ?ws'"
    using sw bw pos l1 by (auto simp add: sorted_wrt_append)
  have f6: "\<forall>t \<in> set ?ws'. 0 < t \<and> (lastStaleWarning st \<noteq> 0 \<longrightarrow> t - lastStaleWarning st > 30000)"
    using bw pos l1 by (auto split: if_splits)
  have f7: "?ws' \<noteq> [] \<longrightarrow> lastStaleWarning (processAll us ?s1) = last ?ws'"
    using lw ew l1 by (auto split: if_splits)
  have f8: "?ws' = [] \<longrightarrow> lastStaleWarning (processAll us ?s1) = lastStaleWarning st"
    using ew l1 by (auto split: if_splits)
  show ?case
    unfolding pa
    apply (rule exI[of _ ?ws'])
    using f1 f2 f3 f4 f5 f6 f7 f8 by blast
qed




lemmas scene_defs = fresh_movement_def TramMovement_def tracking_def scene_tram_def
  point_a_def point_a_again_def point_b_def point_before_def delivery_def approach_def



lemma wrap_zero: "wrapRotation 0 = 0"
  by (simp add: wrapRotation_def)


text \<open>One turn is all the wrap adds: a difference beyond \<open>3 * pi\<close> stays beyond \<open>pi\<close>.\<close>

lemma wrap_single_turn:
  "wrapRotation (- (7 * pi / 2)) = - (3 * pi / 2) \<and> \<bar>wrapRotation (- (7 * pi / 2))\<bar> > pi"
proof -
  have neg: "- (7 * pi / 2) < 0" using pi_gt_zero by simp
  have a: "\<not> - (7 * pi / 2) > pi" using neg pi_gt_zero by linarith
  have b: "- (7 * pi / 2) < - pi" using pi_gt_zero by simp
  have "wrapRotation (- (7 * pi / 2)) = - (7 * pi / 2) + 2 * pi"
    unfolding wrapRotation_def Let_def using a b by (simp only: if_False if_True)
  then have w: "wrapRotation (- (7 * pi / 2)) = - (3 * pi / 2)" by simp
  have "\<bar>- (3 * pi / 2)\<bar> > pi" using pi_gt_zero by simp
  then show ?thesis using w by simp
qed

subsection \<open>An update within the tolerance\<close>

text \<open>
  C1, as the code has it. An update that is fresh and whose coordinates are within the
  change tolerance of the accepted point starts no transition, writes nothing to the
  console and leaves both accepted points, the tram and every other field as they were,
  except that the tram is stopped: a timeline in flight is killed and cleared, and
  \<open>isMoving\<close> is set to false.
\<close>

theorem unchanged_update_stops:
  assumes "current u = Some cur"
    and "\<not> isGPSDataStale now (timestamp cur) defaultMaxAgeMs"
    and "currentGPS st = Some acc"
    and "\<bar>lat cur - lat acc\<bar> \<le> 5 / 10 ^ 6"
    and "\<bar>lon cur - lon acc\<bar> \<le> 5 / 10 ^ 6"
  shows "processGPSData now u st =
           st\<lparr>gsap := gsap st @ (case currentTween st of
                                      Some t \<Rightarrow> [TimelineKill t]
                                    | None \<Rightarrow> []),
              currentTween := None, isMoving := False\<rparr> \<and>
         started (gsap (processGPSData now u st)) = started (gsap st)"
proof -
  have nc: "\<not> hasGPSChanged (Some cur) (currentGPS st)"
    using assms(3,4,5) by (simp add: hasGPSChanged_def)
  have eq: "processGPSData now u st = stopTramMovement st"
    using assms(1,2,3) nc by (simp add: processGPSData_def)
  show ?thesis
    unfolding eq stopTramMovement_eq by (simp add: started_append started_kill)
qed

text \<open>
  The scene with the timeline \<open>approach\<close> in flight and the coordinates of \<open>point_a\<close>
  reported again: the update is handled as the theorem says.
\<close>

theorem unchanged_update_stops_witness:
  "current (delivery point_a_again None 1002100) = Some point_a_again \<and>
   \<not> isGPSDataStale 1002100 (timestamp point_a_again) defaultMaxAgeMs \<and>
   currentGPS (tracking pi (Some approach)) = Some point_a \<and>
   \<bar>lat point_a_again - lat point_a\<bar> \<le> 5 / 10 ^ 6 \<and>
   \<bar>lon point_a_again - lon point_a\<bar> \<le> 5 / 10 ^ 6 \<and>
   processGPSData 1002100 (delivery point_a_again None 1002100) (tracking pi (Some approach)) =
     (tracking pi (Some approach))\<lparr>gsap := [TimelineKill approach], currentTween := None,
                                   isMoving := False\<rparr>"
proof -
  have h1: "current (delivery point_a_again None 1002100) = Some point_a_again"
    by (simp add: delivery_def)
  have h2: "\<not> isGPSDataStale 1002100 (timestamp point_a_again) defaultMaxAgeMs"
    by (simp add: isGPSDataStale_def defaultMaxAgeMs_def point_a_again_def)
  have h3: "currentGPS (tracking pi (Some approach)) = Some point_a"
    by (simp add: tracking_def)
  have h4: "\<bar>lat point_a_again - lat point_a\<bar> \<le> 5 / 10 ^ 6"
    by (simp add: point_a_def point_a_again_def)
  have h5: "\<bar>lon point_a_again - lon point_a\<bar> \<le> 5 / 10 ^ 6"
    by (simp add: point_a_def point_a_again_def)
  have g: "gsap (tracking pi (Some approach)) = []"
          "currentTween (tracking pi (Some approach)) = Some approach"
    by (simp_all add: tracking_def fresh_movement_def TramMovement_def)
  show ?thesis
    using unchanged_update_stops[OF h1 h2 h3 h4 h5] h1 h2 h3 h4 h5 by (simp add: g)
qed

text \<open>
  In that scene the timeline in flight is not left running: it is killed, and the
  reconciler no longer holds it.
\<close>

theorem unchanged_update_cancels_counterexample:
  "currentTween (tracking pi (Some approach)) = Some approach \<and>
   \<not> isGPSDataStale 1002100 (timestamp point_a_again) defaultMaxAgeMs \<and>
   \<not> hasGPSChanged (Some point_a_again) (currentGPS (tracking pi (Some approach))) \<and>
   currentTween (processGPSData 1002100 (delivery point_a_again None 1002100)
                   (tracking pi (Some approach))) = None \<and>
   gsap (processGPSData 1002100 (delivery point_a_again None 1002100)
           (tracking pi (Some approach))) = [TimelineKill approach]"
  by (simp add: scene_defs processGPSData_def isGPSDataStale_def defaultMaxAgeMs_def
      hasGPSChanged_def stopTramMovement_def)

subsection \<open>The first update\<close>

text \<open>
  C2, as the code has it. On a fresh update that arrives while no point has been accepted,
  the current point is accepted, the previous accepted point becomes the previous point
  the update carries, or the current point when it carries none, and the tram, when there
  is one, is placed at the computed position at once: no call is made on the animation
  engine, and the timeline handle and \<open>isMoving\<close> keep their values. So the two accepted
  points are equal afterwards exactly when the update carries no previous point or
  carries one equal to its current point.
\<close>

theorem first_update_snaps:
  assumes "current u = Some cur"
    and "\<not> isGPSDataStale now (timestamp cur) defaultMaxAgeMs"
    and "currentGPS st = None"
  shows "currentGPS (processGPSData now u st) = Some cur \<and>
         previousGPS (processGPSData now u st) =
           (case previous u of Some prev \<Rightarrow> Some prev | None \<Rightarrow> Some cur) \<and>
         (previousGPS (processGPSData now u st) = currentGPS (processGPSData now u st)) =
           (previous u = None \<or> previous u = Some cur) \<and>
         tram (processGPSData now u st) =
           (case tram st of
              None \<Rightarrow> None
            | Some t \<Rightarrow> Some (t\<lparr>position := calculatePosition st (lat cur) (lon cur)\<rparr>)) \<and>
         gsap (processGPSData now u st) = gsap st \<and>
         currentTween (processGPSData now u st) = currentTween st \<and>
         isMoving (processGPSData now u st) = isMoving st"
proof -
  have c: "currentGPS (processGPSData now u st) = Some cur"
    and p: "previousGPS (processGPSData now u st) =
           (case previous u of Some prev \<Rightarrow> Some prev | None \<Rightarrow> Some cur)"
    and r: "tram (processGPSData now u st) =
           (case tram st of
              None \<Rightarrow> None
            | Some t \<Rightarrow> Some (t\<lparr>position := calculatePosition st (lat cur) (lon cur)\<rparr>)) \<and>
         gsap (processGPSData now u st) = gsap st \<and>
         currentTween (processGPSData now u st) = currentTween st \<and>
         isMoving (processGPSData now u st) = isMoving st"
    using assms
    by (cases "tram st";
        simp add: processGPSData_def positionTramImmediately_def write_console_def
          calculatePosition_def Let_def)+
  have e: "(previousGPS (processGPSData now u st) = currentGPS (processGPSData now u st)) =
           (previous u = None \<or> previous u = Some cur)"
    unfolding c p by (cases "previous u") auto
  show ?thesis using c p e r by blast
qed

text \<open>
  A first update that carries no previous point: both accepted points are \<open>point_a\<close> and
  the tram is at the projection of \<open>point_a\<close>.
\<close>

theorem first_update_snaps_witness:
  "current (delivery point_a None 1000100) = Some point_a \<and>
   \<not> isGPSDataStale 1000100 (timestamp point_a) defaultMaxAgeMs \<and>
   currentGPS fresh_movement = None \<and>
   currentGPS (processGPSData 1000100 (delivery point_a None 1000100) fresh_movement) =
     Some point_a \<and>
   previousGPS (processGPSData 1000100 (delivery point_a None 1000100) fresh_movement) =
     Some point_a \<and>
   tram (processGPSData 1000100 (delivery point_a None 1000100) fresh_movement) =
     Some \<lparr>position = \<lparr>pos_x = - (12565 / 10), pos_y = - (3 / 10), pos_z = - (36516 / 10)\<rparr>,
           rotation_y = pi\<rparr> \<and>
   gsap (processGPSData 1000100 (delivery point_a None 1000100) fresh_movement) = []"
proof -
  have h1: "current (delivery point_a None 1000100) = Some point_a"
    by (simp add: delivery_def)
  have h2: "\<not> isGPSDataStale 1000100 (timestamp point_a) defaultMaxAgeMs"
    by (simp add: isGPSDataStale_def defaultMaxAgeMs_def point_a_def)
  have h3: "currentGPS fresh_movement = None"
    by (simp add: fresh_movement_def TramMovement_def)
  have v: "previous (delivery point_a None 1000100) = None"
          "tram fresh_movement = Some scene_tram" "gsap fresh_movement = []"
          "calculatePosition fresh_movement (lat point_a) (lon point_a) =
             \<lparr>pos_x = - (12565 / 10), pos_y = - (3 / 10), pos_z = - (36516 / 10)\<rparr>"
    by (simp_all add: scene_defs calculatePosition_def)
  show ?thesis
    using first_update_snaps[OF h1 h2 h3] h1 h2 h3 by (simp add: v scene_tram_def)
qed

text \<open>
  A first update that carries a distinct previous point: the previous accepted point is
  that point, not the current one.
\<close>

theorem first_update_previous_counterexample:
  "currentGPS fresh_movement = None \<and>
   \<not> isGPSDataStale 1000100 (timestamp point_a) defaultMaxAgeMs \<and>
   currentGPS (processGPSData 1000100 (delivery point_a (Some point_before) 1000100)
                 fresh_movement) = Some point_a \<and>
   previousGPS (processGPSData 1000100 (delivery point_a (Some point_before) 1000100)
                  fresh_movement) = Some point_before \<and>
   previousGPS (processGPSData 1000100 (delivery point_a (Some point_before) 1000100)
                  fresh_movement) \<noteq>
   currentGPS (processGPSData 1000100 (delivery point_a (Some point_before) 1000100)
                 fresh_movement)"
  by (simp add: scene_defs processGPSData_def isGPSDataStale_def defaultMaxAgeMs_def
      positionTramImmediately_def write_console_def calculatePosition_def Let_def)

subsection \<open>Stale updates\<close>

text \<open>
  C5. A point is stale when its timestamp is absent or more than 60000 ms old. Any number
  of consecutive stale updates leave both accepted points and the tram's transform as
  they were and start no transition, whatever their coordinates; the only call on the
  animation engine is the kill of the timeline that was in flight, after which no
  timeline is held and the tram is not moving; and any two staleness warnings written
  are more than 30000 ms apart, each more than 30000 ms after the last one written
  before.
\<close>

theorem stale_updates_freeze:
  assumes "all_stale us"
  shows "isGPSDataStale now NoTimestamp defaultMaxAgeMs \<and>
         isGPSDataStale now (Millis t) defaultMaxAgeMs = (now - t > 60000) \<and>
         currentGPS (processAll us st) = currentGPS st \<and>
         previousGPS (processAll us st) = previousGPS st \<and>
         tram (processAll us st) = tram st \<and>
         gsap (processAll us st) =
           gsap st @ (if us = [] then []
                      else case currentTween st of
                             Some running \<Rightarrow> [TimelineKill running]
                           | None \<Rightarrow> []) \<and>
         (us \<noteq> [] \<longrightarrow> currentTween (processAll us st) = None \<and> \<not> isMoving (processAll us st)) \<and>
         (\<exists>ws. staleWarnings (console (processAll us st)) = staleWarnings (console st) @ ws \<and>
               sorted_wrt (\<lambda>a b. b - a > 30000) ws \<and>
               (\<forall>w \<in> set ws. lastStaleWarning st \<noteq> 0 \<longrightarrow> w - lastStaleWarning st > 30000))"
proof -
  let ?f = "processAll us st"
  from stale_run[OF assms, of st] obtain ws where
    frame: "?f = st\<lparr>gsap := gsap ?f, currentTween := currentTween ?f, isMoving := isMoving ?f,
                    console := console ?f, lastStaleWarning := lastStaleWarning ?f\<rparr>"
    and g: "gsap ?f = gsap st @ (if us = [] then []
                      else case currentTween st of Some t \<Rightarrow> [TimelineKill t] | None \<Rightarrow> [])"
    and tw: "us \<noteq> [] \<longrightarrow> currentTween ?f = None \<and> \<not> isMoving ?f"
    and cw: "staleWarnings (console ?f) = staleWarnings (console st) @ ws"
    and sw: "sorted_wrt (\<lambda>a b. b - a > 30000) ws"
    and bw: "\<forall>t \<in> set ws. 0 < t \<and> (lastStaleWarning st \<noteq> 0 \<longrightarrow> t - lastStaleWarning st > 30000)"
    by blast
  have a: "currentGPS ?f = currentGPS st" by (subst frame) simp
  have b: "previousGPS ?f = previousGPS st" by (subst frame) simp
  have c: "tram ?f = tram st" by (subst frame) simp
  have d: "isGPSDataStale now NoTimestamp defaultMaxAgeMs"
    by (simp add: isGPSDataStale_def)
  have e: "isGPSDataStale now (Millis t) defaultMaxAgeMs = (now - t > 60000)"
    by (simp add: isGPSDataStale_def defaultMaxAgeMs_def)
  have w: "\<exists>ws. staleWarnings (console ?f) = staleWarnings (console st) @ ws \<and>
               sorted_wrt (\<lambda>a b. b - a > 30000) ws \<and>
               (\<forall>w \<in> set ws. lastStaleWarning st \<noteq> 0 \<longrightarrow> w - lastStaleWarning st > 30000)"
    using cw sw bw by blast
  show ?thesis using a b c d e g tw w by blast
qed

text \<open>
  Three stale deliveries of a distant point, 10 and 40 seconds apart, on the scene with a
  timeline in flight: the timeline is killed, the accepted points stay, and the warning
  is written at the first and the third.
\<close>

theorem stale_updates_freeze_witness:
  "all_stale stale_run3 \<and>
   currentGPS (processAll stale_run3 (tracking pi (Some approach))) = Some point_a \<and>
   previousGPS (processAll stale_run3 (tracking pi (Some approach))) = Some point_before \<and>
   gsap (processAll stale_run3 (tracking pi (Some approach))) = [TimelineKill approach] \<and>
   currentTween (processAll stale_run3 (tracking pi (Some approach))) = None \<and>
   staleWarnings (console (processAll stale_run3 (tracking pi (Some approach)))) =
     [2000000, 2040001]"
proof -
  have h: "all_stale stale_run3"
    by (simp add: all_stale_def stale_run3_def delivery_def point_b_def isGPSDataStale_def
        defaultMaxAgeMs_def)
  have v: "currentGPS (tracking pi (Some approach)) = Some point_a"
          "previousGPS (tracking pi (Some approach)) = Some point_before"
          "gsap (tracking pi (Some approach)) = []"
          "currentTween (tracking pi (Some approach)) = Some approach"
          "stale_run3 \<noteq> []"
    by (simp_all add: tracking_def fresh_movement_def TramMovement_def stale_run3_def)
  have w: "staleWarnings (console (processAll stale_run3 (tracking pi (Some approach)))) =
     [2000000, 2040001]"
    by (simp add: stale_run3_def scene_defs processGPSData_def isGPSDataStale_def
        defaultMaxAgeMs_def stopTramMovement_def write_console_def staleWarnings_def Let_def)
  show ?thesis
    using stale_updates_freeze[OF h, of 0 0 "tracking pi (Some approach)"] h w
    by (simp add: v)
qed

subsection \<open>A changed update\<close>






end
